theory Spec2Isabelle
  imports Complex_Main "HOL-Library.Sublist" "HOL-Library.AList"
begin

section \<open>Python values and strings\<close>

text \<open>
  The program is Python. A \<open>str\<close> is modelled by \<open>string\<close>, each \<open>char\<close> standing for
  the code point of the same number (0 to 255). A \<open>float\<close> is modelled by a real number:
  arithmetic is exact, and infinities, NaN and rounding error are outside the model.
  A \<open>dict\<close> with string keys is an association list, read with \<open>map_of\<close> and written
  with \<open>AList.update\<close> (the value of an existing key is replaced in place, a new key is
  added at the end, as Python does).
\<close>

datatype pyval =
    PyNone
  | PyBool bool
  | PyInt int
  | PyFloat real
  | PyStr string
  | PyList "pyval list"
  | PyDict "(string \<times> pyval) list"

type_synonym pydict = "(string \<times> pyval) list"

datatype py_error = KeyError | ValueError | TypeError | ZeroDivisionError | AttributeError

text \<open>\<open>d.get(k, default)\<close> and the truth value of a dict (\<open>bool(d)\<close>: not empty).\<close>

definition dict_get :: "pydict \<Rightarrow> string \<Rightarrow> pyval \<Rightarrow> pyval" where
  "dict_get d k dflt = (case map_of d k of None \<Rightarrow> dflt | Some v \<Rightarrow> v)"

definition truthy_dict :: "pydict \<Rightarrow> bool" where
  "truthy_dict d = (d \<noteq> [])"

definition truthy_str :: "string \<Rightarrow> bool" where
  "truthy_str s = (s \<noteq> [])"

text \<open>The truth value of an \<open>Optional[str]\<close>: \<open>None\<close> and the empty string are false.\<close>

definition truthy_opt :: "string option \<Rightarrow> bool" where
  "truthy_opt x = (case x of None \<Rightarrow> False | Some s \<Rightarrow> truthy_str s)"

text \<open>\<open>{**a, **b}\<close>\<close>

definition dict_merge :: "pydict \<Rightarrow> pydict \<Rightarrow> pydict" where
  "dict_merge a b = fold (\<lambda>(k, v). AList.update k v) b a"

text \<open>
  \<open>str.lower()\<close> on code points below 256: the letters A to Z, and the upper-case
  letters of the range 192 to 222 (215, the multiplication sign, is not a letter).
\<close>

definition lower_char :: "char \<Rightarrow> char" where
  "lower_char c =
     (let n = (of_char c :: nat)
      in if (65 \<le> n \<and> n \<le> 90) \<or> (192 \<le> n \<and> n \<le> 222 \<and> n \<noteq> 215)
         then char_of (n + 32) else c)"

definition py_lower :: "string \<Rightarrow> string" where
  "py_lower s = map lower_char s"

text \<open>
  \<open>str.isspace()\<close> on code points below 256 (also what \<open>\s\<close> matches in a \<open>str\<close>
  pattern): 9 to 13, 28 to 32, 133 and 160.
\<close>

definition py_isspace :: "char \<Rightarrow> bool" where
  "py_isspace c =
     (let n = (of_char c :: nat)
      in (9 \<le> n \<and> n \<le> 13) \<or> (28 \<le> n \<and> n \<le> 32) \<or> n = 133 \<or> n = 160)"

definition py_strip :: "string \<Rightarrow> string" where
  "py_strip s = rev (dropWhile py_isspace (rev (dropWhile py_isspace s)))"

text \<open>\<open>p in s\<close> for two strings: \<open>p\<close> occurs in \<open>s\<close> as a contiguous substring.\<close>

fun py_in :: "string \<Rightarrow> string \<Rightarrow> bool" where
  "py_in p [] = (p = [])"
| "py_in p (c # cs) = (prefix p (c # cs) \<or> py_in p cs)"

section \<open>The session state (state.py)\<close>

record Message =
  role :: string
  content :: string
  timestamp :: "string option"

text \<open>
  \<open>State\<close> is a total \<open>TypedDict\<close>: every key is present. \<open>UserProfile\<close>,
  \<open>NutritionProfile\<close> and \<open>FoodAnalysis\<close> are partial (\<open>total=False\<close>) and stay
  dictionaries.
\<close>

record State =
  messages :: "Message list"
  current_user_input :: string
  awaiting_user_input :: bool
  user_profile :: pydict
  profile_complete :: bool
  nutrition_profile :: pydict
  food_analysis :: pydict
  current_phase :: string
  next_agent :: string
  food_request :: "string option"
  food_request_pending :: bool
  awaiting_food_request :: bool
  final_recommendation :: string
  can_eat_verdict :: bool
  session_complete :: bool

text \<open>The state \<open>main\<close> starts the graph with.\<close>

definition initial_state :: State where
  "initial_state =
     \<lparr> messages = [], current_user_input = [], awaiting_user_input = False,
       user_profile = [], profile_complete = False, nutrition_profile = [],
       food_analysis = [], current_phase = ''greeting'', next_agent = ''trainer'',
       food_request = None, food_request_pending = False, awaiting_food_request = False,
       final_recommendation = [], can_eat_verdict = False, session_complete = False \<rparr>"

section \<open>Routing (nodes.py, main.py)\<close>

definition meal_planning_keywords :: "string list" where
  "meal_planning_keywords =
     [''meal plan'', ''diet plan'', ''nutrition plan'', ''what should i eat'',
      ''meal ideas'', ''diet advice'']"

definition is_meal_planning_request :: "State \<Rightarrow> bool" where
  "is_meal_planning_request s =
     list_ex (\<lambda>keyword. py_in keyword (py_lower (current_user_input s))) meal_planning_keywords"

definition determine_next_agent :: "State \<Rightarrow> string" where
  "determine_next_agent s =
     (let profile_complete = profile_complete s;
          food_request = truthy_opt (food_request s);
          has_nutrition_profile = truthy_dict (nutrition_profile s);
          has_food_analysis = truthy_dict (food_analysis s);
          awaiting_food_request = awaiting_food_request s
      in if \<not> profile_complete then ''trainer''
         else if profile_complete \<and> \<not> has_nutrition_profile then ''nutritionist''
         else if profile_complete \<and> has_nutrition_profile \<and> is_meal_planning_request s
           then ''nutritionist''
         else if profile_complete \<and> has_nutrition_profile \<and> \<not> food_request
                 \<and> \<not> awaiting_food_request then ''trainer''
         else if food_request \<and> \<not> has_food_analysis then ''food_specialist''
         else if profile_complete \<and> has_nutrition_profile \<and> has_food_analysis
                 \<and> \<not> truthy_str (final_recommendation s) then ''trainer''
         else ''human'')"

definition check_session_status :: "State \<Rightarrow> string" where
  "check_session_status s = (if session_complete s then ''complete'' else ''continue'')"

definition after_trainer :: "State \<Rightarrow> string" where
  "after_trainer s =
     (if session_complete s then ''completion''
      else if awaiting_user_input s then ''human''
      else determine_next_agent s)"

definition after_nutritionist :: "State \<Rightarrow> string" where
  "after_nutritionist s = determine_next_agent s"

definition after_food_specialist :: "State \<Rightarrow> string" where
  "after_food_specialist s = determine_next_agent s"

section \<open>Updates and their merge into the state\<close>

text \<open>
  A node returns a dictionary holding some of the keys of \<open>State\<close>. \<open>State\<close>
  declares no reducer for any key (state.py), so the graph built by \<open>StateGraph(State)\<close>
  replaces the value of every key the update names, \<open>messages\<close> included, and keeps
  the others. A node that extends the history copies it and appends to the copy.
\<close>

record Update =
  u_messages :: "Message list option"
  u_current_user_input :: "string option"
  u_awaiting_user_input :: "bool option"
  u_user_profile :: "pydict option"
  u_profile_complete :: "bool option"
  u_nutrition_profile :: "pydict option"
  u_food_analysis :: "pydict option"
  u_current_phase :: "string option"
  u_next_agent :: "string option"
  u_food_request :: "string option option"
  u_food_request_pending :: "bool option"
  u_awaiting_food_request :: "bool option"
  u_final_recommendation :: "string option"
  u_can_eat_verdict :: "bool option"
  u_session_complete :: "bool option"

definition empty_update :: Update where
  "empty_update =
     \<lparr> u_messages = None, u_current_user_input = None, u_awaiting_user_input = None,
       u_user_profile = None, u_profile_complete = None, u_nutrition_profile = None,
       u_food_analysis = None, u_current_phase = None, u_next_agent = None,
       u_food_request = None, u_food_request_pending = None,
       u_awaiting_food_request = None, u_final_recommendation = None,
       u_can_eat_verdict = None, u_session_complete = None \<rparr>"

definition overwrite :: "'a \<Rightarrow> 'a option \<Rightarrow> 'a" where
  "overwrite old new = (case new of None \<Rightarrow> old | Some v \<Rightarrow> v)"

definition merge :: "State \<Rightarrow> Update \<Rightarrow> State" where
  "merge s u =
     \<lparr> messages = overwrite (messages s) (u_messages u),
       current_user_input = overwrite (current_user_input s) (u_current_user_input u),
       awaiting_user_input = overwrite (awaiting_user_input s) (u_awaiting_user_input u),
       user_profile = overwrite (user_profile s) (u_user_profile u),
       profile_complete = overwrite (profile_complete s) (u_profile_complete u),
       nutrition_profile = overwrite (nutrition_profile s) (u_nutrition_profile u),
       food_analysis = overwrite (food_analysis s) (u_food_analysis u),
       current_phase = overwrite (current_phase s) (u_current_phase u),
       next_agent = overwrite (next_agent s) (u_next_agent u),
       food_request = overwrite (food_request s) (u_food_request u),
       food_request_pending = overwrite (food_request_pending s) (u_food_request_pending u),
       awaiting_food_request = overwrite (awaiting_food_request s) (u_awaiting_food_request u),
       final_recommendation = overwrite (final_recommendation s) (u_final_recommendation u),
       can_eat_verdict = overwrite (can_eat_verdict s) (u_can_eat_verdict u),
       session_complete = overwrite (session_complete s) (u_session_complete u) \<rparr>"

section \<open>The human node (nodes.py)\<close>

definition exit_words :: "string list" where
  "exit_words = [''exit'', ''quit'', '':q'', ''bye'']"

definition consumption_phrases :: "string list" where
  "consumption_phrases =
     [''i want to eat'', ''can i eat'', ''i'm eating'', ''eating'',
      ''i'll eat'', ''let me eat'', ''should i eat'', ''is it ok to eat'',
      ''can eat'', ''want to eat'']"

definition specific_foods :: "string list" where
  "specific_foods =
     [''apple'', ''banana'', ''toast'', ''cappuccino'', ''cheese'', ''ham'', ''kfc'',
      ''pizza'', ''burger'', ''chicken'']"

definition quantity_words :: "string list" where
  "quantity_words = [''1'', ''2'', ''3'', ''4'', ''5'', ''one'', ''two'', ''three'']"

definition has_consumption_intent :: "string \<Rightarrow> bool" where
  "has_consumption_intent user_lower =
     list_ex (\<lambda>phrase. py_in phrase user_lower) consumption_phrases"

definition has_specific_food :: "string \<Rightarrow> bool" where
  "has_specific_food user_lower = list_ex (\<lambda>food. py_in food user_lower) specific_foods"

definition is_food_request :: "string \<Rightarrow> bool" where
  "is_food_request user_lower =
     ((has_consumption_intent user_lower \<and> has_specific_food user_lower)
      \<or> list_ex (\<lambda>num. list_ex (\<lambda>food. py_in (num @ '' '' @ food) user_lower) specific_foods)
           quantity_words)"

text \<open>
  \<open>line\<close> is what \<open>input\<close> returns and \<open>now\<close> the text of
  \<open>datetime.now().isoformat()\<close>.
\<close>

definition human_node :: "State \<Rightarrow> string \<Rightarrow> string \<Rightarrow> Update" where
  "human_node s line now =
     (let user_input = py_strip line
      in if py_lower user_input \<in> set exit_words
         then empty_update
                \<lparr> u_current_user_input := Some user_input,
                  u_session_complete := Some True,
                  u_awaiting_user_input := Some False \<rparr>
         else
           let msgs = messages s
                        @ [\<lparr> role = ''user'', content = user_input, timestamp = Some now \<rparr>];
               user_lower = py_lower user_input;
               is_food = is_food_request user_lower
           in empty_update
                \<lparr> u_messages := Some msgs,
                  u_current_user_input := Some user_input,
                  u_awaiting_user_input := Some False,
                  u_food_request :=
                    Some (if is_food \<and> \<not> truthy_opt (food_request s)
                          then Some user_input else food_request s),
                  u_food_request_pending := Some (is_food \<and> profile_complete s) \<rparr>)"

definition completion_node :: "State \<Rightarrow> Update" where
  "completion_node s =
     empty_update \<lparr> u_session_complete := Some True, u_awaiting_user_input := Some False \<rparr>"

section \<open>Conversions and arithmetic of Python\<close>

text \<open>
  \<open>float(s)\<close> and \<open>int(s)\<close> on a string, and the text Python prints for a float or a
  container, are not part of the program: they are parameters of the model
  (\<open>None\<close> stands for \<open>ValueError\<close>). Every result below holds for every choice of them.
\<close>

record builtins =
  float_of_str :: "string \<Rightarrow> real option"
  int_of_str :: "string \<Rightarrow> int option"
  text_of :: "pyval \<Rightarrow> string"

fun show_nat :: "nat \<Rightarrow> string" where
  "show_nat n =
     (if n < 10 then [char_of (48 + n)]
      else show_nat (n div 10) @ [char_of (48 + n mod 10)])"

declare show_nat.simps [simp del]

definition show_int :: "int \<Rightarrow> string" where
  "show_int i = (if i < 0 then CHR ''-'' # show_nat (nat (- i)) else show_nat (nat i))"

text \<open>\<open>str(v)\<close>, also what an f-string prints for \<open>v\<close>.\<close>

definition py_str :: "builtins \<Rightarrow> pyval \<Rightarrow> string" where
  "py_str B v =
     (case v of
        PyStr s \<Rightarrow> s
      | PyNone \<Rightarrow> ''None''
      | PyBool b \<Rightarrow> (if b then ''True'' else ''False'')
      | PyInt n \<Rightarrow> show_int n
      | PyFloat x \<Rightarrow> text_of B v
      | PyList xs \<Rightarrow> text_of B v
      | PyDict d \<Rightarrow> text_of B v)"

definition py_float :: "builtins \<Rightarrow> pyval \<Rightarrow> py_error + real" where
  "py_float B v =
     (case v of
        PyNone \<Rightarrow> Inl TypeError
      | PyBool b \<Rightarrow> Inr (if b then 1 else 0)
      | PyInt n \<Rightarrow> Inr (of_int n)
      | PyFloat x \<Rightarrow> Inr x
      | PyStr s \<Rightarrow> (case float_of_str B s of None \<Rightarrow> Inl ValueError | Some x \<Rightarrow> Inr x)
      | PyList xs \<Rightarrow> Inl TypeError
      | PyDict d \<Rightarrow> Inl TypeError)"

text \<open>\<open>int(v)\<close>: a float is cut towards zero.\<close>

definition py_int :: "builtins \<Rightarrow> pyval \<Rightarrow> py_error + int" where
  "py_int B v =
     (case v of
        PyNone \<Rightarrow> Inl TypeError
      | PyBool b \<Rightarrow> Inr (if b then 1 else 0)
      | PyInt n \<Rightarrow> Inr n
      | PyFloat x \<Rightarrow> Inr (if 0 \<le> x then \<lfloor>x\<rfloor> else \<lceil>x\<rceil>)
      | PyStr s \<Rightarrow> (case int_of_str B s of None \<Rightarrow> Inl ValueError | Some n \<Rightarrow> Inr n)
      | PyList xs \<Rightarrow> Inl TypeError
      | PyDict d \<Rightarrow> Inl TypeError)"

text \<open>A value that takes part in arithmetic and comparisons with numbers.\<close>

definition num_of :: "pyval \<Rightarrow> real option" where
  "num_of v =
     (case v of
        PyBool b \<Rightarrow> Some (if b then 1 else 0)
      | PyInt n \<Rightarrow> Some (of_int n)
      | PyFloat x \<Rightarrow> Some x
      | PyNone \<Rightarrow> None
      | PyStr s \<Rightarrow> None
      | PyList xs \<Rightarrow> None
      | PyDict d \<Rightarrow> None)"

text \<open>\<open>round(x)\<close> rounds a half to the even neighbour; \<open>round(x, n)\<close> keeps \<open>n\<close> decimals.\<close>

definition py_round :: "real \<Rightarrow> int" where
  "py_round x =
     (let f = \<lfloor>x\<rfloor>; d = x - of_int f
      in if d < 1 / 2 then f else if 1 / 2 < d then f + 1
         else if even f then f else f + 1)"

definition py_round_to :: "nat \<Rightarrow> real \<Rightarrow> real" where
  "py_round_to n x = of_int (py_round (x * 10 ^ n)) / 10 ^ n"

text \<open>\<open>d[k]\<close> raises \<open>KeyError\<close> when the key is missing.\<close>

definition subscript :: "pydict \<Rightarrow> string \<Rightarrow> py_error + pyval" where
  "subscript d k = (case map_of d k of None \<Rightarrow> Inl KeyError | Some v \<Rightarrow> Inr v)"

text \<open>Sequencing of steps that may raise: the first exception ends the computation.\<close>

definition bind_err :: "py_error + 'a \<Rightarrow> ('a \<Rightarrow> py_error + 'b) \<Rightarrow> py_error + 'b" where
  "bind_err m f = (case m of Inl e \<Rightarrow> Inl e | Inr x \<Rightarrow> f x)"

section \<open>The trainer (agents/trainer.py)\<close>

text \<open>
  What \<open>json.loads\<close> makes of the reply of the language model, and what \<open>trainer\<close>
  returns: a dictionary, of which the keys below are read. A key may be missing; a key
  that is present holds a value of the type the prompt asks for. The reply itself is an
  input of the model: \<open>None\<close> means that the call or the parsing raised.
\<close>

record TrainerResult =
  r_message :: "string option"
  r_user_profile :: "pydict option"
  r_profile_complete :: "bool option"
  r_current_phase :: "string option"
  r_awaiting_user_input :: "bool option"
  r_awaiting_food_request :: "bool option"
  r_food_request :: "string option"
  r_final_recommendation :: "string option"
  r_can_eat_verdict :: "bool option"

definition no_result :: TrainerResult where
  "no_result =
     \<lparr> r_message = None, r_user_profile = None, r_profile_complete = None,
       r_current_phase = None, r_awaiting_user_input = None,
       r_awaiting_food_request = None, r_food_request = None,
       r_final_recommendation = None, r_can_eat_verdict = None \<rparr>"

text \<open>
  \<open>_validate_profile_data\<close> has one block for each field, run in this order on the
  dictionary \<open>cleaned\<close>, which starts empty.
\<close>

definition clean_age :: "builtins \<Rightarrow> pydict \<Rightarrow> pydict \<Rightarrow> pydict" where
  "clean_age B profile_data cleaned =
     (case map_of profile_data ''age'' of
        None \<Rightarrow> cleaned
      | Some v \<Rightarrow>
          (case py_int B v of
             Inl e \<Rightarrow> cleaned
           | Inr age \<Rightarrow>
               if 1 \<le> age \<and> age \<le> 120
               then AList.update ''age'' (PyInt age) cleaned else cleaned))"

definition clean_sex :: "builtins \<Rightarrow> pydict \<Rightarrow> pydict \<Rightarrow> pydict" where
  "clean_sex B profile_data cleaned =
     (case map_of profile_data ''sex'' of
        None \<Rightarrow> cleaned
      | Some v \<Rightarrow>
          (let sex = py_lower (py_str B v)
           in if sex \<in> set [''male'', ''female'']
              then AList.update ''sex'' (PyStr sex) cleaned else cleaned))"

definition clean_height_cm :: "builtins \<Rightarrow> pydict \<Rightarrow> pydict \<Rightarrow> pydict" where
  "clean_height_cm B profile_data cleaned =
     (case map_of profile_data ''height_cm'' of
        None \<Rightarrow> cleaned
      | Some v \<Rightarrow>
          (case py_float B v of
             Inl e \<Rightarrow> cleaned
           | Inr height \<Rightarrow>
               if 80 \<le> height \<and> height \<le> 250
               then AList.update ''height_cm'' (PyFloat height) cleaned else cleaned))"

definition clean_weight_kg :: "builtins \<Rightarrow> pydict \<Rightarrow> pydict \<Rightarrow> pydict" where
  "clean_weight_kg B profile_data cleaned =
     (case map_of profile_data ''weight_kg'' of
        None \<Rightarrow> cleaned
      | Some v \<Rightarrow>
          (case py_float B v of
             Inl e \<Rightarrow> cleaned
           | Inr weight \<Rightarrow>
               if 20 \<le> weight \<and> weight \<le> 400
               then AList.update ''weight_kg'' (PyFloat weight) cleaned else cleaned))"

definition clean_activity_level :: "builtins \<Rightarrow> pydict \<Rightarrow> pydict \<Rightarrow> pydict" where
  "clean_activity_level B profile_data cleaned =
     (case map_of profile_data ''activity_level'' of
        None \<Rightarrow> cleaned
      | Some v \<Rightarrow>
          (let activity = py_lower (py_str B v)
           in if activity \<in> set [''sedentary'', ''light'', ''moderate'', ''active'',
                                   ''very_active'']
              then AList.update ''activity_level'' (PyStr activity) cleaned
              else cleaned))"

definition clean_first_meal :: "builtins \<Rightarrow> pydict \<Rightarrow> pydict \<Rightarrow> pydict" where
  "clean_first_meal B profile_data cleaned =
     (case map_of profile_data ''first_meal'' of
        None \<Rightarrow> cleaned
      | Some v \<Rightarrow>
          (case v of
             PyBool b \<Rightarrow> AList.update ''first_meal'' (PyBool b) cleaned
           | _ \<Rightarrow>
               (let first_meal_str = py_lower (py_str B v)
                in if first_meal_str \<in> set [''true'', ''yes'', ''y'', ''first'']
                   then AList.update ''first_meal'' (PyBool True) cleaned
                   else if first_meal_str \<in> set [''false'', ''no'', ''n'', ''not first'']
                   then AList.update ''first_meal'' (PyBool False) cleaned
                   else cleaned)))"

definition validate_profile_data :: "builtins \<Rightarrow> pydict \<Rightarrow> pydict" where
  "validate_profile_data B profile_data =
     clean_first_meal B profile_data
       (clean_activity_level B profile_data
         (clean_weight_kg B profile_data
           (clean_height_cm B profile_data
             (clean_sex B profile_data
               (clean_age B profile_data [])))))"

definition required_fields :: "string list" where
  "required_fields =
     [''age'', ''sex'', ''height_cm'', ''weight_kg'', ''activity_level'', ''first_meal'']"

text \<open>
  The state and the input only shape the prompt. With a reply, its profile is validated
  and laid over the stored one, and the rest of the reply is returned as it is. Without
  one, the fallback asks for the first missing field.
\<close>

definition handle_profile_collection ::
    "builtins \<Rightarrow> State \<Rightarrow> string \<Rightarrow> pydict \<Rightarrow> TrainerResult option \<Rightarrow> TrainerResult" where
  "handle_profile_collection B s user_input current_profile llm =
     (let missing_fields = filter (\<lambda>field. map_of current_profile field = None) required_fields
      in case llm of
           Some result \<Rightarrow>
             (case r_user_profile result of
                None \<Rightarrow> result
              | Some raw \<Rightarrow>
                  (let cleaned_profile = validate_profile_data B raw
                   in result \<lparr> r_user_profile :=
                                 Some (dict_merge current_profile cleaned_profile) \<rparr>))
         | None \<Rightarrow>
             if \<not> truthy_dict current_profile
             then no_result
                    \<lparr> r_message := Some (''Hi there! I'm your fitness trainer lah! Let's see ''
                                        @ ''if you can eat that food. First, tell me your age?''),
                      r_user_profile := Some current_profile,
                      r_profile_complete := Some False,
                      r_current_phase := Some ''profile_collection'',
                      r_awaiting_user_input := Some True \<rparr>
             else
               let next_field = (case missing_fields of [] \<Rightarrow> None | f # fs \<Rightarrow> Some f);
                   question =
                     (if next_field = Some ''sex'' then ''Are you male or female?''
                      else if next_field = Some ''height_cm'' then ''What's your height in cm?''
                      else if next_field = Some ''weight_kg''
                        then ''What's your current weight in kg?''
                      else if next_field = Some ''activity_level''
                        then ''How active are you? ''
                             @ ''(sedentary/light/moderate/active/very_active)''
                      else if next_field = Some ''first_meal''
                        then ''Is this your first meal of the day?''
                      else ''Can you tell me more about yourself?'')
               in no_result
                    \<lparr> r_message := Some question,
                      r_user_profile := Some current_profile,
                      r_profile_complete := Some (length missing_fields = 0),
                      r_current_phase := Some ''profile_collection'',
                      r_awaiting_user_input := Some True \<rparr>)"

definition ask_for_food_request :: "builtins \<Rightarrow> State \<Rightarrow> TrainerResult" where
  "ask_for_food_request B s =
     (let target_calories = dict_get (nutrition_profile s) ''target_calories'' (PyInt 2000)
      in no_result
           \<lparr> r_message :=
               Some (''Perfect! Now I know your nutritional needs - you should aim for about ''
                     @ py_str B target_calories
                     @ '' calories per day for weight loss. What food would you like me to ''
                     @ ''analyze for you? For example, you can ask about apples, bananas, ''
                     @ ''cappuccino, toast, ham, or cheese!''),
             r_awaiting_user_input := Some True,
             r_awaiting_food_request := Some True,
             r_current_phase := Some ''food_request'' \<rparr>)"

text \<open>
  The fallback of the final recommendation runs inside the exception handler: a calorie
  value that is not a number raises \<open>TypeError\<close> out of the function.
\<close>

definition generate_final_recommendation ::
    "builtins \<Rightarrow> State \<Rightarrow> TrainerResult option \<Rightarrow> py_error + TrainerResult" where
  "generate_final_recommendation B s llm =
     (case llm of
        Some result \<Rightarrow> Inr result
      | None \<Rightarrow>
          (let target_cals = dict_get (nutrition_profile s) ''target_calories'' (PyInt 2000);
               food_cals = dict_get (food_analysis s) ''total_calories'' (PyInt 0)
           in case (num_of target_cals, num_of food_cals) of
                (Some t, Some f) \<Rightarrow>
                  (let can_eat = (f \<le> t * (3 / 10))
                   in Inr (no_result
                        \<lparr> r_message :=
                            Some (''Based on your target of '' @ py_str B target_cals
                                  @ '' calories per day, this food has '' @ py_str B food_cals
                                  @ '' calories. ''
                                  @ (if can_eat then ''Can eat lah!''
                                     else ''Better reduce a bit lor.'')),
                          r_final_recommendation :=
                            Some (''Food analysis complete. ''
                                  @ (if can_eat then ''Approved'' else ''Not recommended'')
                                  @ '' based on calorie targets.''),
                          r_can_eat_verdict := Some can_eat \<rparr>))
              | _ \<Rightarrow> Inl TypeError))"

definition trainer ::
    "builtins \<Rightarrow> State \<Rightarrow> TrainerResult option \<Rightarrow> py_error + TrainerResult" where
  "trainer B s llm =
     (let has_nutrition_profile = truthy_dict (nutrition_profile s);
          has_food_analysis = truthy_dict (food_analysis s);
          food_request = truthy_opt (food_request s)
      in if profile_complete s \<and> has_nutrition_profile \<and> has_food_analysis
            \<and> \<not> truthy_str (final_recommendation s)
         then generate_final_recommendation B s llm
         else if food_request \<and> \<not> has_food_analysis
         then Inr (no_result
                \<lparr> r_message := Some ''Let me get our food specialist to analyze that for you!'',
                  r_awaiting_user_input := Some False \<rparr>)
         else if profile_complete s \<and> has_nutrition_profile \<and> \<not> food_request
         then Inr (ask_for_food_request B s)
         else Inr (handle_profile_collection B s (current_user_input s) (user_profile s) llm))"

text \<open>\<open>d.get(k, default)\<close> on an optional key, and the truth value of \<open>d.get(k)\<close>.\<close>

definition get_or :: "'a option \<Rightarrow> 'a \<Rightarrow> 'a" where
  "get_or x dflt = (case x of None \<Rightarrow> dflt | Some v \<Rightarrow> v)"

text \<open>
  Every stage node copies the history and appends the message of its agent when
  \<open>result.get("message")\<close> is true: present and not empty.
\<close>

definition append_message ::
    "Message list \<Rightarrow> string \<Rightarrow> string option \<Rightarrow> string \<Rightarrow> Message list" where
  "append_message msgs who message now =
     (case message of
        None \<Rightarrow> msgs
      | Some m \<Rightarrow>
          if truthy_str m
          then msgs @ [\<lparr> role = who, content = m, timestamp = Some now \<rparr>]
          else msgs)"

definition trainer_node ::
    "builtins \<Rightarrow> State \<Rightarrow> TrainerResult option \<Rightarrow> string \<Rightarrow> py_error + Update" where
  "trainer_node B s llm now =
     bind_err (trainer B s llm) (\<lambda>result.
       let msgs = append_message (messages s) ''trainer'' (r_message result) now;
           updates = empty_update
                       \<lparr> u_messages := Some msgs,
                         u_awaiting_user_input :=
                           Some (get_or (r_awaiting_user_input result) False) \<rparr>;
           updates =
             (if truthy_dict (get_or (r_user_profile result) [])
              then updates \<lparr> u_user_profile := r_user_profile result,
                             u_profile_complete :=
                               Some (get_or (r_profile_complete result) False) \<rparr>
              else updates);
           updates =
             (if truthy_opt (r_current_phase result)
              then updates \<lparr> u_current_phase := r_current_phase result \<rparr>
              else updates);
           updates =
             (if truthy_opt (r_final_recommendation result)
              then updates \<lparr> u_final_recommendation := r_final_recommendation result,
                             u_can_eat_verdict :=
                               Some (get_or (r_can_eat_verdict result) False),
                             u_session_complete := Some True \<rparr>
              else updates)
       in Inr updates)"

section \<open>The nutritionist (agents/nutritionist.py)\<close>

definition get_bmi_class :: "real \<Rightarrow> string" where
  "get_bmi_class bmi =
     (if bmi < 185 / 10 then ''underweight''
      else if bmi < 25 then ''normal''
      else if bmi < 30 then ''overweight''
      else ''obese'')"

text \<open>A list or a dict cannot be a dictionary key: looking it up raises \<open>TypeError\<close>.\<close>

definition get_activity_multiplier :: "pyval \<Rightarrow> py_error + real" where
  "get_activity_multiplier level =
     (case level of
        PyStr l \<Rightarrow>
          Inr (if l = ''sedentary'' then 12 / 10
               else if l = ''light'' then 1375 / 1000
               else if l = ''moderate'' then 155 / 100
               else if l = ''active'' then 1725 / 1000
               else if l = ''very_active'' then 19 / 10
               else 12 / 10)
      | PyList xs \<Rightarrow> Inl TypeError
      | PyDict d \<Rightarrow> Inl TypeError
      | _ \<Rightarrow> Inr (12 / 10))"

text \<open>The body of the \<open>try\<close> block of \<open>_calculate_basic_metrics\<close>, in its order.\<close>

definition metrics_of_profile :: "builtins \<Rightarrow> pydict \<Rightarrow> py_error + pydict" where
  "metrics_of_profile B profile =
     bind_err (subscript profile ''weight_kg'') (\<lambda>w.
     bind_err (py_float B w) (\<lambda>weight.
     bind_err (subscript profile ''height_cm'') (\<lambda>h.
     bind_err (py_float B h) (\<lambda>height_cm.
     bind_err (subscript profile ''age'') (\<lambda>a.
     bind_err (py_int B a) (\<lambda>age.
     bind_err (subscript profile ''sex'') (\<lambda>sex.
     bind_err (subscript profile ''activity_level'') (\<lambda>activity_level.
       let height_m = height_cm / 100
       in if height_m ^ 2 = 0 then Inl ZeroDivisionError
          else
            let bmi = py_round_to 2 (weight / height_m ^ 2);
                bmi_class = get_bmi_class bmi;
                bmr = (if sex = PyStr ''male''
                       then 10 * weight + (625 / 100) * (height_m * 100) - 5 * of_int age + 5
                       else 10 * weight + (625 / 100) * (height_m * 100) - 5 * of_int age - 161)
            in bind_err (get_activity_multiplier activity_level) (\<lambda>activity_multiplier.
                 let tdee = bmr * activity_multiplier;
                     target_calories = max (py_round (tdee - 500)) 1200;
                     recommended_macros =
                       [(''protein_g'', PyFloat (py_round_to 1 (weight * (16 / 10)))),
                        (''carbs_g'',
                           PyFloat (py_round_to 1 (of_int target_calories * (4 / 10) / 4))),
                        (''fat_g'',
                           PyFloat (py_round_to 1 (of_int target_calories * (3 / 10) / 9)))]
                 in Inr [(''bmi'', PyFloat bmi),
                         (''bmi_class'', PyStr bmi_class),
                         (''bmr'', PyFloat (py_round_to 1 bmr)),
                         (''tdee'', PyFloat (py_round_to 1 tdee)),
                         (''target_calories'', PyInt target_calories),
                         (''recommended_macros'', PyDict recommended_macros),
                         (''health_assessment'', PyStr [])])))))))))"

definition fallback_metrics :: pydict where
  "fallback_metrics =
     [(''bmi'', PyFloat 22),
      (''bmi_class'', PyStr ''normal''),
      (''bmr'', PyFloat 1500),
      (''tdee'', PyFloat 1800),
      (''target_calories'', PyInt 1300),
      (''recommended_macros'',
         PyDict [(''protein_g'', PyFloat 100), (''carbs_g'', PyFloat 130),
                 (''fat_g'', PyFloat 43)]),
      (''health_assessment'',
         PyStr ''Unable to calculate precise metrics due to missing data.'')]"

text \<open>
  The handler catches \<open>KeyError\<close>, \<open>ValueError\<close> and \<open>TypeError\<close>; any other
  exception leaves the function.
\<close>

definition calculate_basic_metrics :: "builtins \<Rightarrow> pydict \<Rightarrow> py_error + pydict" where
  "calculate_basic_metrics B profile =
     (case metrics_of_profile B profile of
        Inr metrics \<Rightarrow> Inr metrics
      | Inl e \<Rightarrow>
          if e = KeyError \<or> e = ValueError \<or> e = TypeError
          then Inr fallback_metrics else Inl e)"

text \<open>
  Of the reply to the nutritionist's prompt two things are read: the message and the
  health assessment inside its nutrition profile.
\<close>

record NutritionistReply =
  n_message :: "string option"
  n_health_assessment :: "string option"

record NutritionistResult =
  nr_message :: string
  nr_nutrition_profile :: pydict

text \<open>The prompt, built before the \<open>try\<close>, subscripts six keys of the basic metrics.\<close>

definition prompt_keys :: "string list" where
  "prompt_keys =
     [''bmi'', ''bmi_class'', ''bmr'', ''tdee'', ''target_calories'', ''recommended_macros'']"

definition generate_enhanced_analysis ::
    "builtins \<Rightarrow> pydict \<Rightarrow> pydict \<Rightarrow> NutritionistReply option
       \<Rightarrow> py_error + NutritionistResult" where
  "generate_enhanced_analysis B profile basic_nutrition llm =
     (if list_ex (\<lambda>k. map_of basic_nutrition k = None) prompt_keys then Inl KeyError
      else
        case llm of
          Some result \<Rightarrow>
            Inr \<lparr> nr_message = get_or (n_message result) ''Nutritional analysis complete.'',
                  nr_nutrition_profile =
                    (case n_health_assessment result of
                       None \<Rightarrow> basic_nutrition
                     | Some h \<Rightarrow>
                         AList.update ''health_assessment'' (PyStr h) basic_nutrition) \<rparr>
        | None \<Rightarrow>
            (let bmi_status = dict_get basic_nutrition ''bmi_class'' PyNone;
                 health_msg =
                   (if bmi_status = PyStr ''underweight''
                    then ''Your BMI indicates you're underweight. Focus on healthy weight ''
                         @ ''gain with nutrient-dense foods.''
                    else if bmi_status = PyStr ''normal''
                    then ''Great! Your BMI is in the healthy range. Maintain this with ''
                         @ ''balanced nutrition and regular exercise.''
                    else if bmi_status = PyStr ''overweight''
                    then ''Your BMI indicates you're overweight. A gradual weight loss ''
                         @ ''approach will help you reach a healthier weight.''
                    else ''Your BMI indicates obesity. Consider consulting a healthcare ''
                         @ ''provider for a comprehensive weight management plan.'')
             in Inr \<lparr> nr_message =
                        ''Based on your profile: BMI ''
                        @ py_str B (dict_get basic_nutrition ''bmi'' PyNone)
                        @ '' ('' @ py_str B bmi_status @ ''), BMR ''
                        @ py_str B (dict_get basic_nutrition ''bmr'' PyNone)
                        @ '' cal/day, TDEE ''
                        @ py_str B (dict_get basic_nutrition ''tdee'' PyNone)
                        @ '' cal/day. Target: ''
                        @ py_str B (dict_get basic_nutrition ''target_calories'' PyNone)
                        @ '' cal/day for weight loss. '' @ health_msg,
                      nr_nutrition_profile =
                        AList.update ''health_assessment'' (PyStr health_msg)
                          basic_nutrition \<rparr>))"

definition nutritionist ::
    "builtins \<Rightarrow> State \<Rightarrow> NutritionistReply option \<Rightarrow> py_error + NutritionistResult" where
  "nutritionist B s llm =
     bind_err (calculate_basic_metrics B (user_profile s)) (\<lambda>basic_nutrition.
       generate_enhanced_analysis B (user_profile s) basic_nutrition llm)"

definition nutritionist_node ::
    "builtins \<Rightarrow> State \<Rightarrow> NutritionistReply option \<Rightarrow> string \<Rightarrow> py_error + Update" where
  "nutritionist_node B s llm now =
     bind_err (nutritionist B s llm) (\<lambda>result.
       Inr (empty_update
              \<lparr> u_messages :=
                  Some (append_message (messages s) ''nutritionist''
                          (Some (nr_message result)) now),
                u_nutrition_profile := Some (nr_nutrition_profile result),
                u_current_phase := Some ''nutrition_analysis'',
                u_awaiting_user_input := Some False \<rparr>))"

section \<open>The food specialist (agents/food_specialist.py)\<close>

record FoodReply =
  f_message :: "string option"
  f_food_analysis :: "pydict option"

record FoodResult =
  fr_message :: string
  fr_food_analysis :: pydict

text \<open>
  The prompt, built before the \<open>try\<close>, calls \<open>get\<close> on the recommended macros: a value
  that is no dictionary raises \<open>AttributeError\<close>. In the fallback, inside the handler,
  a target that is not a number raises \<open>TypeError\<close>.
\<close>

definition generate_complete_food_analysis ::
    "builtins \<Rightarrow> string \<Rightarrow> pydict \<Rightarrow> pydict \<Rightarrow> FoodReply option \<Rightarrow> py_error + FoodResult" where
  "generate_complete_food_analysis B request profile nutrition llm =
     (case dict_get nutrition ''recommended_macros'' (PyDict []) of
        PyDict macros \<Rightarrow>
          (case llm of
             Some result \<Rightarrow>
               (let food_analysis_data = get_or (f_food_analysis result) []
                in Inr \<lparr> fr_message =
                           get_or (f_message result)
                             (''Complete nutritional analysis for '' @ request @ ''.''),
                         fr_food_analysis =
                           [(''food_item'',
                               dict_get food_analysis_data ''food_item'' (PyStr request)),
                            (''quantity'',
                               dict_get food_analysis_data ''quantity'' (PyStr request)),
                            (''calories_per_unit'',
                               dict_get food_analysis_data ''calories_per_unit'' (PyInt 0)),
                            (''total_calories'',
                               dict_get food_analysis_data ''total_calories'' (PyInt 0)),
                            (''macros'',
                               dict_get food_analysis_data ''macros''
                                 (PyDict [(''protein_g'', PyInt 0), (''carbs_g'', PyInt 0),
                                          (''fat_g'', PyInt 0), (''fiber_g'', PyInt 0),
                                          (''sugar_g'', PyInt 0)])),
                            (''nutritional_notes'',
                               dict_get food_analysis_data ''nutritional_notes''
                                 (PyStr ''LLM-powered nutritional analysis'')),
                            (''health_impact'',
                               dict_get food_analysis_data ''health_impact''
                                 (PyStr ''Analyzed using AI nutritional knowledge''))] \<rparr>)
           | None \<Rightarrow>
               (let target_cals = dict_get nutrition ''target_calories'' (PyInt 2000);
                    estimated_calories = (100 :: int)
                in case num_of target_cals of
                     None \<Rightarrow> Inl TypeError
                   | Some t \<Rightarrow>
                       (let percentage_of_daily =
                              (if 0 < t
                               then PyFloat (py_round_to 1 ((of_int estimated_calories / t) * 100))
                               else PyInt 0)
                        in Inr \<lparr> fr_message =
                                   ''Food analysis for '' @ request @ '': Estimated ''
                                   @ show_int estimated_calories @ '' calories (''
                                   @ py_str B percentage_of_daily
                                   @ ''% of your daily target). This is a general estimate - ''
                                   @ ''actual values may vary based on preparation and ''
                                   @ ''portion size.'',
                                 fr_food_analysis =
                                   [(''food_item'', PyStr request),
                                    (''quantity'', PyStr request),
                                    (''calories_per_unit'', PyInt estimated_calories),
                                    (''total_calories'', PyInt estimated_calories),
                                    (''macros'',
                                       PyDict [(''protein_g'', PyFloat 5),
                                               (''carbs_g'', PyFloat 15),
                                               (''fat_g'', PyFloat 3),
                                               (''fiber_g'', PyFloat 2),
                                               (''sugar_g'', PyFloat 8)]),
                                    (''nutritional_notes'',
                                       PyStr (''Estimated nutritional content for ''
                                              @ request @ ''. Approximately ''
                                              @ show_int estimated_calories @ '' calories.'')),
                                    (''health_impact'',
                                       PyStr (''Moderate caloric impact. Consider portion ''
                                              @ ''size and daily intake balance.''))] \<rparr>)))
      | _ \<Rightarrow> Inl AttributeError)"

definition food_specialist ::
    "builtins \<Rightarrow> State \<Rightarrow> FoodReply option \<Rightarrow> py_error + FoodResult" where
  "food_specialist B s llm =
     (if \<not> truthy_opt (food_request s)
      then Inr \<lparr> fr_message = ''I need to know what food you want to analyze! ''
                               @ ''Please tell me what you'd like to eat.'',
                 fr_food_analysis = [] \<rparr>
      else generate_complete_food_analysis B (get_or (food_request s) [])
             (user_profile s) (nutrition_profile s) llm)"

definition food_specialist_node ::
    "builtins \<Rightarrow> State \<Rightarrow> FoodReply option \<Rightarrow> string \<Rightarrow> py_error + Update" where
  "food_specialist_node B s llm now =
     bind_err (food_specialist B s llm) (\<lambda>result.
       Inr (empty_update
              \<lparr> u_messages :=
                  Some (append_message (messages s) ''food_specialist''
                          (Some (fr_message result)) now),
                u_food_analysis := Some (fr_food_analysis result),
                u_current_phase := Some ''food_analysis'',
                u_food_request_pending := Some False,
                u_awaiting_user_input := Some False \<rparr>))"

section \<open>The graph (main.py)\<close>

text \<open>
  The nodes of the graph and its end. After a node has run and its update is merged, the
  routing function of the node names the next one through the table given with it; a
  name that the table lacks stops the run with an error.
\<close>

datatype node = Trainer | Nutritionist | Food_Specialist | Human | Completion | END

definition trainer_paths :: "(string \<times> node) list" where
  "trainer_paths =
     [(''human'', Human), (''nutritionist'', Nutritionist),
      (''food_specialist'', Food_Specialist), (''trainer'', Trainer),
      (''completion'', Completion)]"

definition human_paths :: "(string \<times> node) list" where
  "human_paths = [(''complete'', Completion), (''continue'', Trainer)]"

definition nutritionist_paths :: "(string \<times> node) list" where
  "nutritionist_paths =
     [(''trainer'', Trainer), (''food_specialist'', Food_Specialist), (''human'', Human)]"

definition food_specialist_paths :: "(string \<times> node) list" where
  "food_specialist_paths = [(''trainer'', Trainer), (''human'', Human)]"

text \<open>
  One step of the graph from a node and a state: the update the node returns, the next
  node and the merged state. The replies of the language model, the line typed and the
  clock are free in each step.
\<close>

inductive step :: "builtins \<Rightarrow> node \<times> State \<Rightarrow> Update \<Rightarrow> node \<times> State \<Rightarrow> bool"
  for B :: builtins
where
  step_trainer:
    "trainer_node B s llm now = Inr u \<Longrightarrow>
     map_of trainer_paths (after_trainer (merge s u)) = Some n \<Longrightarrow>
     step B (Trainer, s) u (n, merge s u)"
| step_nutritionist:
    "nutritionist_node B s llm now = Inr u \<Longrightarrow>
     map_of nutritionist_paths (after_nutritionist (merge s u)) = Some n \<Longrightarrow>
     step B (Nutritionist, s) u (n, merge s u)"
| step_food_specialist:
    "food_specialist_node B s llm now = Inr u \<Longrightarrow>
     map_of food_specialist_paths (after_food_specialist (merge s u)) = Some n \<Longrightarrow>
     step B (Food_Specialist, s) u (n, merge s u)"
| step_human:
    "human_node s line now = u \<Longrightarrow>
     map_of human_paths (check_session_status (merge s u)) = Some n \<Longrightarrow>
     step B (Human, s) u (n, merge s u)"
| step_completion:
    "completion_node s = u \<Longrightarrow> step B (Completion, s) u (END, merge s u)"

text \<open>A run: the updates of consecutive steps, in order.\<close>

inductive run :: "builtins \<Rightarrow> node \<times> State \<Rightarrow> Update list \<Rightarrow> node \<times> State \<Rightarrow> bool"
  for B :: builtins
where
  run_nil: "run B c [] c"
| run_step: "step B c u c' \<Longrightarrow> run B c' us c'' \<Longrightarrow> run B c (u # us) c''"

section \<open>The food catalogue (tools/food_db.py)\<close>

text \<open>
  On code points below 256, \<open>\d\<close> matches the ten digits and \<open>\w\<close> the digits,
  the letters, the underscore and the letters and numbers of the upper half.
\<close>

definition is_digit :: "char \<Rightarrow> bool" where
  "is_digit c = (let n = (of_char c :: nat) in 48 \<le> n \<and> n \<le> 57)"



text \<open>\<open>int\<close> of a run of digits.\<close>

definition digits_value :: "string \<Rightarrow> nat" where
  "digits_value ds = foldl (\<lambda>acc c. 10 * acc + (of_char c - 48)) 0 ds"



text \<open>
  An entry of \<open>food_response\<close>: its name, the two names under \<open>eaten\<close> and the
  calories under \<open>eaten.total_nutritional_content\<close>. \<open>None\<close> is a missing key.
\<close>

record FoodItem =
  food_entry_name :: "string option"
  food_name_singular :: "string option"
  food_name_plural :: "string option"
  calories :: "pyval option"





section \<open>The validation rules as the specification states them\<close>

text \<open>
  Age an integer from 1 to 120, sex male or female, height from 80 to 250, weight from 20
  to 400, activity level one of five words, first meal a boolean.
\<close>

definition field_valid :: "string \<Rightarrow> pyval \<Rightarrow> bool" where
  "field_valid k v =
     (if k = ''age'' then (case v of PyInt a \<Rightarrow> 1 \<le> a \<and> a \<le> 120 | _ \<Rightarrow> False)
      else if k = ''sex''
        then (case v of PyStr x \<Rightarrow> x \<in> set [''male'', ''female''] | _ \<Rightarrow> False)
      else if k = ''height_cm''
        then (case v of PyFloat h \<Rightarrow> 80 \<le> h \<and> h \<le> 250
                      | PyInt h \<Rightarrow> 80 \<le> h \<and> h \<le> 250 | _ \<Rightarrow> False)
      else if k = ''weight_kg''
        then (case v of PyFloat w \<Rightarrow> 20 \<le> w \<and> w \<le> 400
                      | PyInt w \<Rightarrow> 20 \<le> w \<and> w \<le> 400 | _ \<Rightarrow> False)
      else if k = ''activity_level''
        then (case v of
                PyStr x \<Rightarrow> x \<in> set [''sedentary'', ''light'', ''moderate'', ''active'',
                                      ''very_active'']
              | _ \<Rightarrow> False)
      else if k = ''first_meal'' then (case v of PyBool b \<Rightarrow> True | _ \<Rightarrow> False)
      else False)"

text \<open>Every field a dictionary holds passes its validation.\<close>

definition only_valid :: "pydict \<Rightarrow> bool" where
  "only_valid d = (\<forall>k v. map_of d k = Some v \<longrightarrow> field_valid k v)"

text \<open>All six required fields are present and each passes its validation.\<close>

definition all_fields_valid :: "pydict \<Rightarrow> bool" where
  "all_fields_valid p =
     list_all (\<lambda>k. case map_of p k of None \<Rightarrow> False | Some v \<Rightarrow> field_valid k v)
       required_fields"

text \<open>A word with no white space at either end: trimming cannot cut into it.\<close>

definition no_outer_space :: "string \<Rightarrow> bool" where
  "no_outer_space p = (p \<noteq> [] \<and> \<not> py_isspace (hd p) \<and> \<not> py_isspace (last p))"

section \<open>States used as examples\<close>

text \<open>A profile and a nutrition profile as the stages produce them.\<close>

definition example_profile :: pydict where
  "example_profile =
     [(''age'', PyInt 30), (''sex'', PyStr ''male''), (''height_cm'', PyFloat 175),
      (''weight_kg'', PyFloat 70), (''activity_level'', PyStr ''moderate''),
      (''first_meal'', PyBool True)]"

definition example_nutrition :: pydict where
  "example_nutrition =
     [(''bmi'', PyFloat (2286 / 100)), (''bmi_class'', PyStr ''normal''),
      (''bmr'', PyFloat (16488 / 10)), (''tdee'', PyFloat (25556 / 10)),
      (''target_calories'', PyInt 2056),
      (''recommended_macros'',
         PyDict [(''protein_g'', PyFloat 112), (''carbs_g'', PyFloat (2056 / 10)),
                 (''fat_g'', PyFloat (685 / 10))]),
      (''health_assessment'', PyStr [])]"

definition example_analysis :: pydict where
  "example_analysis =
     [(''food_item'', PyStr ''2 apples''), (''quantity'', PyStr ''2 apples''),
      (''calories_per_unit'', PyInt 100), (''total_calories'', PyInt 100)]"

text \<open>
  Conversions for the examples: they read a plain run of digits; the examples never
  look at the text of a float.
\<close>

definition plain_builtins :: builtins where
  "plain_builtins =
     \<lparr> float_of_str =
         (\<lambda>s. if s \<noteq> [] \<and> list_all is_digit s then Some (of_nat (digits_value s)) else None),
       int_of_str =
         (\<lambda>s. if s \<noteq> [] \<and> list_all is_digit s then Some (int (digits_value s)) else None),
       text_of = (\<lambda>v. ''?'') \<rparr>"

text \<open>The profile is complete and the nutrition profile computed; no food asked yet.\<close>

definition profiled_state :: State where
  "profiled_state =
     initial_state
       \<lparr> user_profile := example_profile, profile_complete := True,
         nutrition_profile := example_nutrition \<rparr>"

text \<open>The trainer has greeted and waits for the first input.\<close>

definition greeted_state :: State where
  "greeted_state =
     initial_state
       \<lparr> messages := [\<lparr> role = ''trainer'', content = ''Hi there!'', timestamp = Some ''t0'' \<rparr>],
         awaiting_user_input := True \<rparr>"

text \<open>The user has asked for two apples; then the food specialist has answered.\<close>

definition food_asked_state :: State where
  "food_asked_state = profiled_state \<lparr> food_request := Some ''2 apples'' \<rparr>"

definition analysis_reply :: FoodReply where
  "analysis_reply =
     \<lparr> f_message = Some ''Two apples have about 190 calories.'',
       f_food_analysis = Some example_analysis \<rparr>"

definition analysed_state :: State where
  "analysed_state = food_asked_state \<lparr> food_analysis := example_analysis \<rparr>"

text \<open>The final recommendation has been given.\<close>

definition decided_state :: State where
  "decided_state =
     analysed_state
       \<lparr> final_recommendation :=
           ''Food analysis complete. Approved based on calorie targets.'',
         can_eat_verdict := True, session_complete := True \<rparr>"

text \<open>
  A reply of the language model to the profile prompt: it has read an age of 200 and
  says that the profile is complete.
\<close>

definition overclaiming_reply :: TrainerResult where
  "overclaiming_reply =
     no_result
       \<lparr> r_message := Some ''Wah, steady lah! Your profile is complete.'',
         r_user_profile :=
           Some [(''age'', PyInt 200), (''sex'', PyStr ''male''), (''height_cm'', PyInt 175),
                 (''weight_kg'', PyInt 70), (''activity_level'', PyStr ''moderate''),
                 (''first_meal'', PyBool True)],
         r_profile_complete := Some True,
         r_current_phase := Some ''profile_collection'',
         r_awaiting_user_input := Some False \<rparr>"

text \<open>A profile with a height of zero.\<close>

definition zero_height_profile :: pydict where
  "zero_height_profile =
     [(''age'', PyInt 30), (''sex'', PyStr ''male''), (''height_cm'', PyFloat 0),
      (''weight_kg'', PyFloat 70), (''activity_level'', PyStr ''moderate''),
      (''first_meal'', PyBool True)]"



text \<open>The same state after the user asked for a meal plan.\<close>

definition meal_plan_state :: State where
  "meal_plan_state = profiled_state \<lparr> current_user_input := ''give me a meal plan'' \<rparr>"

section \<open>Facts about strings\<close>

lemma py_in_iff_sublist: "py_in p s \<longleftrightarrow> sublist p s"
  by (induction s) (simp_all add: sublist_Cons_right)

lemma py_in_dropWhile:
  assumes "p \<noteq> []" and "\<not> P (hd p)"
  shows "py_in p (dropWhile P s) = py_in p s"
proof (induction s)
  case Nil
  show ?case by simp
next
  case (Cons c cs)
  show ?case
  proof (cases "P c")
    case True
    with assms have "\<not> prefix p (c # cs)"
      by (cases p) auto
    with True Cons show ?thesis by simp
  next
    case False
    then show ?thesis by simp
  qed
qed

lemma py_in_rev: "py_in (rev p) (rev s) = py_in p s"
  by (simp add: py_in_iff_sublist)

lemma py_in_strip:
  assumes "no_outer_space p"
  shows "py_in p (py_strip s) = py_in p s"
proof -
  let ?t = "dropWhile py_isspace s"
  from assms have p: "p \<noteq> []" "\<not> py_isspace (hd p)" "\<not> py_isspace (last p)"
    by (simp_all add: no_outer_space_def)
  have "py_in p (py_strip s) = py_in (rev p) (dropWhile py_isspace (rev ?t))"
    unfolding py_strip_def
    using py_in_rev [of "rev p" "dropWhile py_isspace (rev ?t)"] by simp
  also have "\<dots> = py_in (rev p) (rev ?t)"
    using p by (intro py_in_dropWhile) (simp_all add: hd_rev)
  also have "\<dots> = py_in p ?t"
    by (rule py_in_rev)
  also have "\<dots> = py_in p s"
    using p by (intro py_in_dropWhile)
  finally show ?thesis .
qed

lemma isspace_lower_char: "py_isspace (lower_char c) = py_isspace c"
proof -
  have "of_char c < (256::nat)" by simp
  then show ?thesis
    by (auto simp add: py_isspace_def lower_char_def Let_def)
qed

lemma py_lower_strip: "py_lower (py_strip s) = py_strip (py_lower s)"
proof -
  have comp: "py_isspace \<circ> lower_char = py_isspace"
    by (rule ext) (simp add: isspace_lower_char)
  show ?thesis
    by (simp add: py_lower_def py_strip_def rev_map dropWhile_map comp)
qed

lemma no_outer_space_join:
  "no_outer_space a \<Longrightarrow> no_outer_space b \<Longrightarrow> no_outer_space (a @ c # b)"
  by (cases a) (auto simp add: no_outer_space_def)

lemma phrases_no_outer_space:
  "list_all no_outer_space consumption_phrases"
  "list_all no_outer_space specific_foods"
  "list_all no_outer_space quantity_words"
  by (simp_all add: consumption_phrases_def specific_foods_def quantity_words_def
        no_outer_space_def py_isspace_def)

lemma pairs_no_outer_space:
  "list_all (\<lambda>num. list_all (\<lambda>food. no_outer_space (num @ '' '' @ food)) specific_foods)
     quantity_words"
  using phrases_no_outer_space(2,3)
  by (auto simp add: list_all_iff intro: no_outer_space_join)

lemma list_ex_in_strip:
  assumes "list_all no_outer_space ps"
  shows "list_ex (\<lambda>p. py_in p (py_strip s)) ps = list_ex (\<lambda>p. py_in p s) ps"
  using assms by (induction ps) (simp_all add: py_in_strip)

lemma list_ex2_in_strip:
  assumes "list_all (\<lambda>n. list_all (\<lambda>f. no_outer_space (g n f)) fs) ns"
  shows "list_ex (\<lambda>n. list_ex (\<lambda>f. py_in (g n f) (py_strip s)) fs) ns
       = list_ex (\<lambda>n. list_ex (\<lambda>f. py_in (g n f) s) fs) ns"
  using assms
proof (induction ns)
  case Nil
  then show ?case by simp
next
  case (Cons n ns)
  have "list_all (\<lambda>f. no_outer_space (g n f)) fs \<Longrightarrow>
        list_ex (\<lambda>f. py_in (g n f) (py_strip s)) fs = list_ex (\<lambda>f. py_in (g n f) s) fs"
    by (induction fs) (simp_all add: py_in_strip)
  with Cons show ?case by simp
qed

text \<open>Trimming the input does not change how it is classified.\<close>

lemma is_food_request_strip:
  "is_food_request (py_lower (py_strip line)) = is_food_request (py_lower line)"
  unfolding py_lower_strip is_food_request_def has_consumption_intent_def
    has_specific_food_def
  by (simp only: list_ex_in_strip [OF phrases_no_outer_space(1)]
        list_ex_in_strip [OF phrases_no_outer_space(2)]
        list_ex2_in_strip [OF pairs_no_outer_space])

lemma is_food_request_iff:
  "is_food_request ul \<longleftrightarrow>
     ((\<exists>p \<in> set consumption_phrases. py_in p ul) \<and> (\<exists>f \<in> set specific_foods. py_in f ul))
     \<or> (\<exists>n \<in> set quantity_words. \<exists>f \<in> set specific_foods. py_in (n @ '' '' @ f) ul)"
  by (simp only: is_food_request_def has_consumption_intent_def has_specific_food_def
        list_ex_iff)

lemma merge_human_node_food_request:
  "py_lower (py_strip line) \<notin> set exit_words \<Longrightarrow>
   food_request (merge s (human_node s line now))
     = (if is_food_request (py_lower (py_strip line)) \<and> \<not> truthy_opt (food_request s)
        then Some (py_strip line) else food_request s)"
  by (simp add: human_node_def merge_def overwrite_def empty_update_def Let_def)

section \<open>Routing: the guard chain\<close>

text \<open>
  C1. The routing function that runs after the trainer sends every state that is not
  complete and awaits input to the human node, whatever the other fields hold: the test
  comes before the guard chain of \<open>determine_next_agent\<close>. The trainer is the only
  node whose update can ask for input. After the nutritionist and the food specialist
  the guard chain is called directly, and after the human node only the session status
  is tested; the states these see never await input, since each of the three nodes sets
  \<open>awaiting_user_input\<close> to false.
\<close>

theorem after_trainer_awaiting_human:
  "(\<not> session_complete s \<and> awaiting_user_input s \<longrightarrow> after_trainer s = ''human'')
   \<and> (nutritionist_node B s llm now = Inr u \<longrightarrow> \<not> awaiting_user_input (merge s u))
   \<and> (food_specialist_node B s llm' now = Inr u' \<longrightarrow> \<not> awaiting_user_input (merge s u'))
   \<and> \<not> awaiting_user_input (merge s (human_node s line now))"
proof (intro conjI impI)
  assume "\<not> session_complete s \<and> awaiting_user_input s"
  then show "after_trainer s = ''human''"
    by (simp add: after_trainer_def)
next
  assume "nutritionist_node B s llm now = Inr u"
  then show "\<not> awaiting_user_input (merge s u)"
    by (cases "nutritionist B s llm")
       (auto simp add: nutritionist_node_def bind_err_def empty_update_def merge_def
          overwrite_def)
next
  assume "food_specialist_node B s llm' now = Inr u'"
  then show "\<not> awaiting_user_input (merge s u')"
    by (cases "food_specialist B s llm'")
       (auto simp add: food_specialist_node_def bind_err_def empty_update_def merge_def
          overwrite_def)
next
  show "\<not> awaiting_user_input (merge s (human_node s line now))"
    by (simp add: human_node_def Let_def empty_update_def merge_def overwrite_def)
qed

theorem after_trainer_awaiting_human_witness:
  "after_trainer greeted_state = ''human''
   \<and> (case nutritionist_node plain_builtins greeted_state None ''t'' of
        Inl e \<Rightarrow> False
      | Inr u \<Rightarrow> \<not> awaiting_user_input (merge greeted_state u))
   \<and> (case food_specialist_node plain_builtins greeted_state None ''t'' of
        Inl e \<Rightarrow> False
      | Inr u \<Rightarrow> \<not> awaiting_user_input (merge greeted_state u))"
proof -
  let ?B = plain_builtins
  note inst = after_trainer_awaiting_human [of greeted_state ?B]
  have "\<not> session_complete greeted_state \<and> awaiting_user_input greeted_state"
    by code_simp
  then have 1: "after_trainer greeted_state = ''human''"
    by (rule inst [THEN conjunct1, THEN mp])
  have "case nutritionist_node ?B greeted_state None ''t'' of Inl e \<Rightarrow> False | Inr u \<Rightarrow> True"
    by code_simp
  then obtain u where u: "nutritionist_node ?B greeted_state None ''t'' = Inr u"
    by (cases "nutritionist_node ?B greeted_state None ''t''") simp_all
  then have 2: "\<not> awaiting_user_input (merge greeted_state u)"
    by (rule inst [THEN conjunct2, THEN conjunct1, THEN mp])
  have "case food_specialist_node ?B greeted_state None ''t'' of
          Inl e \<Rightarrow> False | Inr u \<Rightarrow> True"
    by code_simp
  then obtain v where v: "food_specialist_node ?B greeted_state None ''t'' = Inr v"
    by (cases "food_specialist_node ?B greeted_state None ''t''") simp_all
  then have 3: "\<not> awaiting_user_input (merge greeted_state v)"
    by (rule inst [THEN conjunct2, THEN conjunct2, THEN conjunct1, THEN mp])
  from 1 2 3 u v show ?thesis
    by simp
qed

text \<open>
  C2 (amended). \<open>determine_next_agent\<close> follows its guard chain on every state, the first
  guard that holds deciding: profile incomplete gives the trainer; profile complete and
  no nutrition profile gives the nutritionist; a meal-planning keyword in the lower-cased
  current input gives the nutritionist again; otherwise no food request and none awaited
  gives the trainer (the food prompt); a food request without analysis gives the food
  specialist; an analysis without final recommendation gives the trainer (the final
  recommendation); anything else gives the human node. The result is always one of the
  four identifiers.
\<close>

theorem determine_next_agent_guard_chain:
  fixes s :: State
  defines "pc \<equiv> profile_complete s"
    and "np \<equiv> truthy_dict (nutrition_profile s)"
    and "mp \<equiv> is_meal_planning_request s"
    and "fr \<equiv> truthy_opt (food_request s)"
    and "fa \<equiv> truthy_dict (food_analysis s)"
    and "afr \<equiv> awaiting_food_request s"
    and "rec \<equiv> truthy_str (final_recommendation s)"
  shows "(\<not> pc \<longrightarrow> determine_next_agent s = ''trainer'')
       \<and> (pc \<and> \<not> np \<longrightarrow> determine_next_agent s = ''nutritionist'')
       \<and> (pc \<and> np \<and> mp \<longrightarrow> determine_next_agent s = ''nutritionist'')
       \<and> (pc \<and> np \<and> \<not> mp \<and> \<not> fr \<and> \<not> afr \<longrightarrow> determine_next_agent s = ''trainer'')
       \<and> (pc \<and> np \<and> \<not> mp \<and> fr \<and> \<not> fa \<longrightarrow> determine_next_agent s = ''food_specialist'')
       \<and> (pc \<and> np \<and> \<not> mp \<and> fa \<and> \<not> rec \<longrightarrow> determine_next_agent s = ''trainer'')
       \<and> (pc \<and> np \<and> \<not> mp \<and> (fr \<or> afr) \<and> (fr \<longrightarrow> fa) \<and> (fa \<longrightarrow> rec)
            \<longrightarrow> determine_next_agent s = ''human'')
       \<and> determine_next_agent s \<in> {''trainer'', ''nutritionist'', ''food_specialist'', ''human''}"
  unfolding pc_def np_def mp_def fr_def fa_def afr_def rec_def
  by (simp add: determine_next_agent_def Let_def)

theorem determine_next_agent_guard_chain_witness:
  "determine_next_agent initial_state = ''trainer''
   \<and> determine_next_agent (initial_state\<lparr>profile_complete := True\<rparr>) = ''nutritionist''
   \<and> determine_next_agent meal_plan_state = ''nutritionist''
   \<and> determine_next_agent profiled_state = ''trainer''
   \<and> determine_next_agent (profiled_state\<lparr>food_request := Some ''2 apples''\<rparr>)
       = ''food_specialist''
   \<and> determine_next_agent
        (profiled_state\<lparr>food_request := Some ''2 apples'', food_analysis := example_analysis\<rparr>)
       = ''trainer''
   \<and> determine_next_agent
        (profiled_state\<lparr>food_request := Some ''2 apples'', food_analysis := example_analysis,
                        final_recommendation := ''Approved''\<rparr>)
       = ''human''"
proof -
  have a: "\<not> profile_complete initial_state"
    by (simp add: initial_state_def)
  have b: "profile_complete (initial_state\<lparr>profile_complete := True\<rparr>)
           \<and> \<not> truthy_dict (nutrition_profile (initial_state\<lparr>profile_complete := True\<rparr>))"
    by (simp add: initial_state_def truthy_dict_def)
  have c: "profile_complete meal_plan_state \<and> truthy_dict (nutrition_profile meal_plan_state)
           \<and> is_meal_planning_request meal_plan_state"
    by code_simp
  have d: "profile_complete profiled_state \<and> truthy_dict (nutrition_profile profiled_state)
           \<and> \<not> is_meal_planning_request profiled_state
           \<and> \<not> truthy_opt (food_request profiled_state)
           \<and> \<not> awaiting_food_request profiled_state"
    by code_simp
  let ?e = "profiled_state\<lparr>food_request := Some ''2 apples''\<rparr>"
  have e: "profile_complete ?e \<and> truthy_dict (nutrition_profile ?e)
           \<and> \<not> is_meal_planning_request ?e \<and> truthy_opt (food_request ?e)
           \<and> \<not> truthy_dict (food_analysis ?e)"
    by code_simp
  let ?f = "profiled_state\<lparr>food_request := Some ''2 apples'', food_analysis := example_analysis\<rparr>"
  have f: "profile_complete ?f \<and> truthy_dict (nutrition_profile ?f)
           \<and> \<not> is_meal_planning_request ?f \<and> truthy_dict (food_analysis ?f)
           \<and> \<not> truthy_str (final_recommendation ?f)"
    by code_simp
  let ?g = "profiled_state\<lparr>food_request := Some ''2 apples'', food_analysis := example_analysis,
                           final_recommendation := ''Approved''\<rparr>"
  have g: "profile_complete ?g \<and> truthy_dict (nutrition_profile ?g)
           \<and> \<not> is_meal_planning_request ?g
           \<and> (truthy_opt (food_request ?g) \<or> awaiting_food_request ?g)
           \<and> (truthy_opt (food_request ?g) \<longrightarrow> truthy_dict (food_analysis ?g))
           \<and> (truthy_dict (food_analysis ?g) \<longrightarrow> truthy_str (final_recommendation ?g))"
    by code_simp
  note gc = determine_next_agent_guard_chain
  note c2 = conjunct2
  have 1: "determine_next_agent initial_state = ''trainer''"
    by (rule gc [THEN conjunct1, THEN mp]) (rule a)
  have 2: "determine_next_agent (initial_state\<lparr>profile_complete := True\<rparr>) = ''nutritionist''"
    by (rule gc [THEN c2, THEN conjunct1, THEN mp]) (rule b)
  have 3: "determine_next_agent meal_plan_state = ''nutritionist''"
    by (rule gc [THEN c2, THEN c2, THEN conjunct1, THEN mp]) (rule c)
  have 4: "determine_next_agent profiled_state = ''trainer''"
    by (rule gc [THEN c2, THEN c2, THEN c2, THEN conjunct1, THEN mp]) (rule d)
  have 5: "determine_next_agent ?e = ''food_specialist''"
    by (rule gc [THEN c2, THEN c2, THEN c2, THEN c2, THEN conjunct1, THEN mp]) (rule e)
  have 6: "determine_next_agent ?f = ''trainer''"
    by (rule gc [THEN c2, THEN c2, THEN c2, THEN c2, THEN c2, THEN conjunct1, THEN mp]) (rule f)
  have 7: "determine_next_agent ?g = ''human''"
    by (rule gc [THEN c2, THEN c2, THEN c2, THEN c2, THEN c2, THEN c2, THEN conjunct1, THEN mp])
       (rule g)
  from 1 2 3 4 5 6 7 show ?thesis
    by (intro conjI)
qed

text \<open>
  The chain as the claim lists it has no guard for meal planning. In the state below the
  profile is complete, the nutrition profile present, no food is requested and none
  awaited, yet the next stage is the nutritionist and not the trainer.
\<close>

theorem determine_next_agent_meal_plan_counterexample:
  "profile_complete meal_plan_state
   \<and> truthy_dict (nutrition_profile meal_plan_state)
   \<and> \<not> truthy_opt (food_request meal_plan_state)
   \<and> \<not> awaiting_food_request meal_plan_state
   \<and> determine_next_agent meal_plan_state = ''nutritionist''
   \<and> determine_next_agent meal_plan_state \<noteq> ''trainer''"
  by code_simp


section \<open>The human node\<close>

text \<open>
  C3 (amended). An input that is not an exit word is classified as a food request iff,
  lower-cased, it contains a consumption phrase and a food term, or contains one of
  1, 2, 3, 4, 5, one, two, three followed by a space and a food term. When it is
  classified and no food request is set, the food request becomes the trimmed input
  (its case kept), not the text as typed. "2 apples" and "can I eat a banana" are
  classified, "I love apples" is not.
\<close>

theorem human_node_food_request:
  "(is_food_request (py_lower (py_strip line)) \<longleftrightarrow>
      ((\<exists>p \<in> set consumption_phrases. py_in p (py_lower line))
         \<and> (\<exists>f \<in> set specific_foods. py_in f (py_lower line)))
      \<or> (\<exists>n \<in> set quantity_words. \<exists>f \<in> set specific_foods.
            py_in (n @ '' '' @ f) (py_lower line)))
   \<and> (py_lower (py_strip line) \<notin> set exit_words
        \<and> is_food_request (py_lower (py_strip line)) \<and> \<not> truthy_opt (food_request s)
      \<longrightarrow> food_request (merge s (human_node s line now)) = Some (py_strip line))
   \<and> is_food_request (py_lower (py_strip ''2 apples''))
   \<and> \<not> is_food_request (py_lower (py_strip ''I love apples''))
   \<and> is_food_request (py_lower (py_strip ''can I eat a banana''))"
proof (intro conjI)
  show "is_food_request (py_lower (py_strip line)) \<longleftrightarrow>
      ((\<exists>p \<in> set consumption_phrases. py_in p (py_lower line))
         \<and> (\<exists>f \<in> set specific_foods. py_in f (py_lower line)))
      \<or> (\<exists>n \<in> set quantity_words. \<exists>f \<in> set specific_foods.
            py_in (n @ '' '' @ f) (py_lower line))"
    unfolding is_food_request_strip by (rule is_food_request_iff)
  show "py_lower (py_strip line) \<notin> set exit_words
        \<and> is_food_request (py_lower (py_strip line)) \<and> \<not> truthy_opt (food_request s)
      \<longrightarrow> food_request (merge s (human_node s line now)) = Some (py_strip line)"
    by (simp add: merge_human_node_food_request)
  show "is_food_request (py_lower (py_strip ''2 apples''))"
    by code_simp
  show "\<not> is_food_request (py_lower (py_strip ''I love apples''))"
    by code_simp
  show "is_food_request (py_lower (py_strip ''can I eat a banana''))"
    by code_simp
qed

theorem human_node_food_request_witness:
  "food_request (merge initial_state (human_node initial_state ''Can I eat 2 apples? '' ''t''))
     = Some ''Can I eat 2 apples?''"
proof -
  have h: "py_lower (py_strip ''Can I eat 2 apples? '') \<notin> set exit_words
           \<and> is_food_request (py_lower (py_strip ''Can I eat 2 apples? ''))
           \<and> \<not> truthy_opt (food_request initial_state)"
    by code_simp
  have t: "py_strip ''Can I eat 2 apples? '' = ''Can I eat 2 apples?''"
    by code_simp
  have "food_request (merge initial_state (human_node initial_state ''Can I eat 2 apples? '' ''t''))
          = Some (py_strip ''Can I eat 2 apples? '')"
    by (rule human_node_food_request [THEN conjunct2, THEN conjunct1, THEN mp]) (rule h)
  then show ?thesis
    by (simp only: t)
qed

text \<open>
  The input typed with a leading space is classified, no food request is set, and the
  food request becomes the trimmed text, which is not the text as typed.
\<close>

theorem human_node_raw_input_counterexample:
  "py_lower (py_strip '' 2 apples'') \<notin> set exit_words
   \<and> is_food_request (py_lower (py_strip '' 2 apples''))
   \<and> \<not> truthy_opt (food_request initial_state)
   \<and> food_request (merge initial_state (human_node initial_state '' 2 apples'' ''t''))
       = Some ''2 apples''
   \<and> food_request (merge initial_state (human_node initial_state '' 2 apples'' ''t''))
       \<noteq> Some '' 2 apples''"
  by code_simp

text \<open>
  C4. When the trimmed, lower-cased input is one of exit, quit, :q, bye, the update of the
  human node names three keys only: the current input, \<open>session_complete\<close> (true) and
  \<open>awaiting_user_input\<close> (false). The merged state differs from the old one in these
  three fields and in no other: the history and the food request are as before, whatever
  the phase and the profile.
\<close>

theorem human_node_exit:
  "py_lower (py_strip line) \<in> set exit_words \<longrightarrow>
     human_node s line now
       = empty_update \<lparr> u_current_user_input := Some (py_strip line),
                        u_session_complete := Some True,
                        u_awaiting_user_input := Some False \<rparr>
     \<and> merge s (human_node s line now)
       = s \<lparr> current_user_input := py_strip line, session_complete := True,
             awaiting_user_input := False \<rparr>
     \<and> session_complete (merge s (human_node s line now))
     \<and> \<not> awaiting_user_input (merge s (human_node s line now))
     \<and> messages (merge s (human_node s line now)) = messages s
     \<and> food_request (merge s (human_node s line now)) = food_request s"
  by (simp add: human_node_def merge_def overwrite_def empty_update_def Let_def)

theorem human_node_exit_witness:
  "session_complete (merge profiled_state (human_node profiled_state '' QUIT '' ''t''))
   \<and> \<not> awaiting_user_input (merge profiled_state (human_node profiled_state '' QUIT '' ''t''))
   \<and> messages (merge profiled_state (human_node profiled_state '' QUIT '' ''t''))
       = messages profiled_state
   \<and> food_request (merge profiled_state (human_node profiled_state '' QUIT '' ''t''))
       = food_request profiled_state"
proof -
  have h: "py_lower (py_strip '' QUIT '') \<in> set exit_words"
    by code_simp
  from human_node_exit [of "'' QUIT ''" profiled_state "''t''", THEN mp, OF h]
  show ?thesis
    by (intro conjI) (elim conjE, assumption)+
qed


section \<open>What a step does to the history, the recommendation and the food request\<close>











lemma merge_final:
  "session_complete (merge s u) = (case u_session_complete u of None \<Rightarrow> session_complete s | Some b \<Rightarrow> b)"
  "final_recommendation (merge s u)
     = (case u_final_recommendation u of None \<Rightarrow> final_recommendation s | Some f \<Rightarrow> f)"
  "food_request (merge s u) = (case u_food_request u of None \<Rightarrow> food_request s | Some f \<Rightarrow> f)"
  "food_request_pending (merge s u)
     = (case u_food_request_pending u of None \<Rightarrow> food_request_pending s | Some f \<Rightarrow> f)"
  by (simp_all add: merge_def overwrite_def)

lemma trainer_node_final:
  assumes "trainer_node B s llm now = Inr u" and "u_final_recommendation u \<noteq> None"
  shows "u_session_complete u = Some True"
proof -
  from assms(1) obtain result where r: "trainer B s llm = Inr result"
    by (cases "trainer B s llm") (simp_all add: trainer_node_def bind_err_def)
  from assms show ?thesis
    by (auto simp add: trainer_node_def bind_err_def r Let_def empty_update_def
          split: if_splits)
qed

lemma nutritionist_node_no_final:
  "nutritionist_node B s llm now = Inr u \<Longrightarrow> u_final_recommendation u = None \<and> u_food_request u = None"
  by (cases "nutritionist B s llm")
     (auto simp add: nutritionist_node_def bind_err_def empty_update_def)

lemma food_specialist_node_no_final:
  "food_specialist_node B s llm now = Inr u \<Longrightarrow> u_final_recommendation u = None \<and> u_food_request u = None
     \<and> u_food_request_pending u = Some False"
  by (cases "food_specialist B s llm")
     (auto simp add: food_specialist_node_def bind_err_def empty_update_def)

lemma human_node_no_final: "u_final_recommendation (human_node s line now) = None"
  by (simp add: human_node_def Let_def empty_update_def)

lemma completion_node_no_final: "u_final_recommendation (completion_node s) = None \<and> u_food_request (completion_node s) = None"
  by (simp add: completion_node_def empty_update_def)

lemma step_final:
  assumes "step B (n, s) u (n', s')" and "u_final_recommendation u \<noteq> None"
  shows "n = Trainer \<and> session_complete s' \<and> n' = Completion"
  using assms(1)
proof (cases rule: step.cases)
  case (step_trainer llm now)
  from trainer_node_final [OF step_trainer(3) assms(2)]
  have sc: "session_complete (merge s u)"
    by (simp add: merge_final)
  then have "after_trainer (merge s u) = ''completion''"
    by (simp add: after_trainer_def)
  with step_trainer(4) have "n' = Completion"
    by (simp add: trainer_paths_def)
  with sc step_trainer(1,2) show ?thesis by simp
next
  case (step_nutritionist llm now)
  from nutritionist_node_no_final [OF step_nutritionist(3)] assms(2)
  show ?thesis by simp
next
  case (step_food_specialist llm now)
  from food_specialist_node_no_final [OF step_food_specialist(3)] assms(2)
  show ?thesis by simp
next
  case (step_human line now)
  from human_node_no_final [of s line now] assms(2)
  show ?thesis unfolding step_human(3) by simp
next
  case step_completion
  then have "u = completion_node s" by simp
  with completion_node_no_final [of s] assms(2) show ?thesis by simp
qed

lemma run_from_END: "run B (END, s) us c' \<Longrightarrow> us = []"
  by (erule run.cases) (auto elim: step.cases)

lemma run_from_Completion:
  assumes "run B (Completion, s) us c'"
  shows "filter (\<lambda>u. u_final_recommendation u \<noteq> None) us = []"
  using assms
proof (cases rule: run.cases)
  case run_nil
  then show ?thesis by simp
next
  case (run_step u c1 vs)
  from run_step(2) have u: "u = completion_node s" and c1: "c1 = (END, merge s u)"
    by (auto elim: step.cases)
  from run_step(3) have "vs = []"
    unfolding c1 by (rule run_from_END)
  with run_step(1) u show ?thesis
    by (simp add: completion_node_no_final)
qed

lemma run_final_once:
  assumes "run B c us c'"
  shows "length (filter (\<lambda>u. u_final_recommendation u \<noteq> None) us) \<le> 1"
  using assms
proof (induction rule: run.induct)
  case (run_nil c)
  show ?case by simp
next
  case (run_step c u c1 us c2)
  show ?case
  proof (cases "u_final_recommendation u = None")
    case True
    with run_step.IH show ?thesis by simp
  next
    case False
    from run_step.hyps(1) have "step B (fst c, snd c) u (fst c1, snd c1)" by simp
    from step_final [OF this False] have "fst c1 = Completion" by simp
    then have "c1 = (Completion, snd c1)" by (cases c1) simp
    with run_step.hyps(2) have "run B (Completion, snd c1) us c2" by simp
    from run_from_Completion [OF this] False show ?thesis by simp
  qed
qed

lemma handle_profile_collection_final:
  "r_final_recommendation (handle_profile_collection B s ui p llm)
     = (case llm of None \<Rightarrow> None | Some r \<Rightarrow> r_final_recommendation r)"
  by (simp add: handle_profile_collection_def Let_def no_result_def
        split: option.split)

lemma trainer_no_regeneration:
  assumes "truthy_str (final_recommendation s)"
    and "trainer B s llm = Inr result"
  shows "r_final_recommendation result
           = (case llm of None \<Rightarrow> None | Some r \<Rightarrow> r_final_recommendation r)
         \<or> r_final_recommendation result = None"
  using assms
  by (auto simp add: trainer_def Let_def handle_profile_collection_final
        ask_for_food_request_def no_result_def split: if_splits)

lemma trainer_node_no_regeneration:
  assumes "truthy_str (final_recommendation s)"
    and "\<forall>r. llm = Some r \<longrightarrow> \<not> truthy_opt (r_final_recommendation r)"
    and "trainer_node B s llm now = Inr u"
  shows "u_final_recommendation u = None \<and> final_recommendation (merge s u) = final_recommendation s"
proof -
  from assms(3) obtain result where r: "trainer B s llm = Inr result"
    by (cases "trainer B s llm") (simp_all add: trainer_node_def bind_err_def)
  from trainer_no_regeneration [OF assms(1) r] assms(2)
  have "\<not> truthy_opt (r_final_recommendation result)"
    by (auto simp add: truthy_opt_def split: option.splits)
  with assms(3) have "u_final_recommendation u = None"
    by (auto simp add: trainer_node_def bind_err_def r Let_def empty_update_def
          split: if_splits)
  then show ?thesis
    by (simp add: merge_final)
qed

lemma trainer_node_food_request:
  assumes "trainer_node B s llm now = Inr u"
  shows "u_food_request u = None"
proof -
  from assms(1) obtain result where r: "trainer B s llm = Inr result"
    by (cases "trainer B s llm") (simp_all add: trainer_node_def bind_err_def)
  from assms show ?thesis
    by (auto simp add: trainer_node_def bind_err_def r Let_def empty_update_def
          split: if_splits)
qed

lemma human_node_keeps_request:
  "truthy_opt (food_request s) \<Longrightarrow>
   food_request (merge s (human_node s line now)) = food_request s"
  by (simp add: human_node_def merge_final Let_def empty_update_def)

lemma step_food_request:
  assumes "step B (n, s) u (n', s')" and "truthy_opt (food_request s)"
  shows "food_request s' = food_request s"
  using assms(1)
proof (cases rule: step.cases)
  case (step_trainer llm now)
  from trainer_node_food_request [OF step_trainer(3)] show ?thesis
    unfolding step_trainer(2) by (simp add: merge_final)
next
  case (step_nutritionist llm now)
  from nutritionist_node_no_final [OF step_nutritionist(3)] show ?thesis
    unfolding step_nutritionist(2) by (simp add: merge_final)
next
  case (step_food_specialist llm now)
  from food_specialist_node_no_final [OF step_food_specialist(3)] show ?thesis
    unfolding step_food_specialist(2) by (simp add: merge_final)
next
  case (step_human line now)
  from human_node_keeps_request [OF assms(2), of line now] show ?thesis
    unfolding step_human(2) step_human(3) by simp
next
  case step_completion
  then have "u = completion_node s" and "s' = merge s u" by simp_all
  with completion_node_no_final [of s] show ?thesis by (simp add: merge_final)
qed

lemma run_food_request:
  assumes "run B c us c'" and "truthy_opt (food_request (snd c))"
  shows "food_request (snd c') = food_request (snd c)"
  using assms
proof (induction rule: run.induct)
  case (run_nil c)
  show ?case by simp
next
  case (run_step c u c1 us c2)
  from run_step.hyps(1) have "step B (fst c, snd c) u (fst c1, snd c1)" by simp
  from step_food_request [OF this run_step.prems]
  have eq: "food_request (snd c1) = food_request (snd c)" .
  with run_step.prems have "truthy_opt (food_request (snd c1))" by simp
  with run_step.IH eq show ?case by simp
qed

section \<open>The history\<close>





section \<open>The final recommendation\<close>

text \<open>
  C6. In every run of the graph at most one update sets the final recommendation. The
  step whose update sets it is a step of the trainer, its merged state has
  \<open>session_complete\<close> true, and the next node is the completion node. When the final
  recommendation is already set, the trainer does not generate one: unless the reply
  to its other prompt brings one, its update sets none and the stored text stays.
\<close>

theorem final_recommendation_at_most_once:
  "(run B c us c' \<longrightarrow> length (filter (\<lambda>u. u_final_recommendation u \<noteq> None) us) \<le> 1)
   \<and> (step B (n, s) u (n', s') \<and> u_final_recommendation u \<noteq> None \<longrightarrow>
        n = Trainer \<and> session_complete s' \<and> n' = Completion)
   \<and> (truthy_str (final_recommendation s)
        \<and> (\<forall>r. llm = Some r \<longrightarrow> \<not> truthy_opt (r_final_recommendation r))
        \<and> trainer_node B s llm now = Inr v \<longrightarrow>
        u_final_recommendation v = None
        \<and> final_recommendation (merge s v) = final_recommendation s)"
proof (intro conjI impI)
  assume "run B c us c'"
  then show "length (filter (\<lambda>u. u_final_recommendation u \<noteq> None) us) \<le> 1"
    by (rule run_final_once)
next
  assume a: "step B (n, s) u (n', s') \<and> u_final_recommendation u \<noteq> None"
  then have st: "step B (n, s) u (n', s')" and f: "u_final_recommendation u \<noteq> None"
    by simp_all
  have "n = Trainer \<and> session_complete s' \<and> n' = Completion"
    using st f by (rule step_final)
  then show "n = Trainer" and "session_complete s'" and "n' = Completion"
    by simp_all
next
  assume a: "truthy_str (final_recommendation s)
        \<and> (\<forall>r. llm = Some r \<longrightarrow> \<not> truthy_opt (r_final_recommendation r))
        \<and> trainer_node B s llm now = Inr v"
  then have a1: "truthy_str (final_recommendation s)"
    and a2: "\<forall>r. llm = Some r \<longrightarrow> \<not> truthy_opt (r_final_recommendation r)"
    and a3: "trainer_node B s llm now = Inr v"
    by simp_all
  have "u_final_recommendation v = None
        \<and> final_recommendation (merge s v) = final_recommendation s"
    using a1 a2 a3 by (rule trainer_node_no_regeneration)
  then show "u_final_recommendation v = None"
    and "final_recommendation (merge s v) = final_recommendation s"
    by simp_all
qed

theorem final_recommendation_at_most_once_witness:
  "(case trainer_node plain_builtins analysed_state None ''t'' of
      Inl e \<Rightarrow> False
    | Inr u \<Rightarrow> u_final_recommendation u \<noteq> None
               \<and> session_complete (merge analysed_state u)
               \<and> length (filter (\<lambda>u. u_final_recommendation u \<noteq> None) [u]) \<le> 1)
   \<and> (case trainer_node plain_builtins decided_state None ''t'' of
        Inl e \<Rightarrow> False
      | Inr v \<Rightarrow> u_final_recommendation v = None)"
proof -
  let ?B = plain_builtins
  have "case trainer_node ?B analysed_state None ''t'' of
          Inl e \<Rightarrow> False | Inr u \<Rightarrow> u_final_recommendation u \<noteq> None"
    by code_simp
  then obtain u where u: "trainer_node ?B analysed_state None ''t'' = Inr u"
    and f: "u_final_recommendation u \<noteq> None"
    by (cases "trainer_node ?B analysed_state None ''t''") simp_all
  have "u_session_complete u = Some True"
    using u f by (rule trainer_node_final)
  then have "map_of trainer_paths (after_trainer (merge analysed_state u)) = Some Completion"
    by (simp add: after_trainer_def merge_final trainer_paths_def)
  with u have st: "step ?B (Trainer, analysed_state) u (Completion, merge analysed_state u)"
    by (rule step_trainer)
  then have rn: "run ?B (Trainer, analysed_state) [u] (Completion, merge analysed_state u)"
    by (rule run_step [OF _ run_nil])
  note inst = final_recommendation_at_most_once
               [of "?B" "(Trainer, analysed_state)" "[u]" "(Completion, merge analysed_state u)"
                   Trainer analysed_state u Completion "merge analysed_state u"]
  have 1: "length (filter (\<lambda>u. u_final_recommendation u \<noteq> None) [u]) \<le> 1"
    by (rule inst [THEN conjunct1, THEN mp]) (rule rn)
  have 2: "session_complete (merge analysed_state u)"
    using inst [THEN conjunct2, THEN conjunct1, THEN mp, OF conjI [OF st f]]
    by (rule conjunct2 [THEN conjunct1])
  have "case trainer_node ?B decided_state None ''t'' of Inl e \<Rightarrow> False | Inr v \<Rightarrow> True"
    by code_simp
  then obtain v where v: "trainer_node ?B decided_state None ''t'' = Inr v"
    by (cases "trainer_node ?B decided_state None ''t''") simp_all
  have d: "truthy_str (final_recommendation decided_state)"
    by code_simp
  have "truthy_str (final_recommendation decided_state)
        \<and> (\<forall>r. (None :: TrainerResult option) = Some r
               \<longrightarrow> \<not> truthy_opt (r_final_recommendation r))
        \<and> trainer_node ?B decided_state None ''t'' = Inr v"
    using d v by simp
  then have 3: "u_final_recommendation v = None"
    by (rule final_recommendation_at_most_once
               [of "?B" _ _ _ _ decided_state _ _ _ None "''t''" v,
                THEN conjunct2, THEN conjunct2, THEN mp, THEN conjunct1])
  from u f 1 2 v 3 show ?thesis
    by simp
qed

section \<open>The food request\<close>

text \<open>
  C9 (amended). Once a food request is set, the human node leaves it as it is, whatever
  the new input. The food specialist resets \<open>food_request_pending\<close> and leaves the food
  request itself set: no node clears it, and through every run of the graph it stays
  what it was.
\<close>

theorem food_request_kept_once_set:
  "(truthy_opt (food_request s) \<longrightarrow>
      food_request (merge s (human_node s line now)) = food_request s)
   \<and> (food_specialist_node B s llm now = Inr u \<longrightarrow>
        food_request (merge s u) = food_request s \<and> \<not> food_request_pending (merge s u))
   \<and> (run B (n, s) us (n', s') \<and> truthy_opt (food_request s) \<longrightarrow>
        food_request s' = food_request s)"
proof (intro conjI impI)
  assume "truthy_opt (food_request s)"
  then show "food_request (merge s (human_node s line now)) = food_request s"
    by (rule human_node_keeps_request)
next
  assume a: "food_specialist_node B s llm now = Inr u"
  from food_specialist_node_no_final [OF a]
  show "food_request (merge s u) = food_request s"
    and "\<not> food_request_pending (merge s u)"
    by (simp_all add: merge_final)
next
  assume a: "run B (n, s) us (n', s') \<and> truthy_opt (food_request s)"
  then have r: "run B (n, s) us (n', s')" and t: "truthy_opt (food_request (snd (n, s)))"
    by simp_all
  have "food_request (snd (n', s')) = food_request (snd (n, s))"
    using r t by (rule run_food_request)
  then show "food_request s' = food_request s"
    by simp
qed

theorem food_request_kept_once_set_witness:
  "food_request (merge food_asked_state (human_node food_asked_state ''3 bananas'' ''t''))
     = Some ''2 apples''
   \<and> (case food_specialist_node plain_builtins food_asked_state (Some analysis_reply) ''t'' of
        Inl e \<Rightarrow> False
      | Inr u \<Rightarrow> food_request (merge food_asked_state u) = Some ''2 apples'')"
proof -
  let ?B = plain_builtins
  let ?s = food_asked_state
  let ?u = "human_node ?s ''3 bananas'' ''t''"
  have t: "truthy_opt (food_request ?s)" and fr: "food_request ?s = Some ''2 apples''"
    by code_simp+
  have "map_of human_paths (check_session_status (merge ?s ?u)) = Some Trainer"
    by code_simp
  with refl have "step ?B (Human, ?s) ?u (Trainer, merge ?s ?u)"
    by (rule step_human)
  then have rn: "run ?B (Human, ?s) [?u] (Trainer, merge ?s ?u)"
    by (rule run_step [OF _ run_nil])
  have "case food_specialist_node ?B ?s (Some analysis_reply) ''t'' of
          Inl e \<Rightarrow> False | Inr u \<Rightarrow> True"
    by code_simp
  then obtain u where u: "food_specialist_node ?B ?s (Some analysis_reply) ''t'' = Inr u"
    by (cases "food_specialist_node ?B ?s (Some analysis_reply) ''t''") simp_all
  note inst = food_request_kept_once_set
               [of "?s" "''3 bananas''" "''t''" "?B" "Some analysis_reply" u Human "[?u]" Trainer
                   "merge ?s ?u"]
  have 1: "food_request (merge ?s ?u) = food_request ?s"
    by (rule inst [THEN conjunct1, THEN mp]) (rule t)
  have 2: "food_request (merge ?s u) = food_request ?s"
    by (rule inst [THEN conjunct2, THEN conjunct1, THEN mp, THEN conjunct1]) (rule u)
  have 3: "food_request (merge ?s ?u) = food_request ?s"
    by (rule inst [THEN conjunct2, THEN conjunct2, THEN mp]) (rule conjI [OF rn t])
  from 1 2 3 u fr show ?thesis
    by simp
qed

text \<open>
  The food specialist has analysed the request: the analysis is there and the request
  is still set.
\<close>

theorem food_request_not_cleared_counterexample:
  "(case food_specialist_node plain_builtins food_asked_state (Some analysis_reply) ''t'' of
      Inl e \<Rightarrow> False
    | Inr u \<Rightarrow> truthy_dict (food_analysis (merge food_asked_state u))
               \<and> truthy_opt (food_request (merge food_asked_state u))
               \<and> food_request (merge food_asked_state u) = Some ''2 apples'')"
  by code_simp


section \<open>The metrics of the nutritionist\<close>

lemma bind_err_Inr: "bind_err m f = Inr y \<longleftrightarrow> (\<exists>x. m = Inr x \<and> f x = Inr y)"
  by (cases m) (simp_all add: bind_err_def)

lemma bind_err_Inl: "bind_err m f = Inl e \<longleftrightarrow> m = Inl e \<or> (\<exists>x. m = Inr x \<and> f x = Inl e)"
  by (cases m) (simp_all add: bind_err_def)

text \<open>Whatever profile the function returns has a target of at least 1200.\<close>

lemma metrics_of_profile_target:
  assumes "metrics_of_profile B p = Inr m"
  shows "\<exists>t. map_of m ''target_calories'' = Some (PyInt t) \<and> 1200 \<le> t"
  using assms
  by (auto simp add: metrics_of_profile_def bind_err_Inr Let_def split: if_splits)

lemma calculate_basic_metrics_target:
  assumes "calculate_basic_metrics B p = Inr m"
  shows "\<exists>t. map_of m ''target_calories'' = Some (PyInt t) \<and> 1200 \<le> t"
proof (cases "metrics_of_profile B p")
  case (Inl e)
  with assms have "m = fallback_metrics"
    by (simp add: calculate_basic_metrics_def split: if_splits)
  then show ?thesis
    by (simp add: fallback_metrics_def)
next
  case (Inr m')
  with assms have "m' = m"
    by (simp add: calculate_basic_metrics_def)
  with Inr metrics_of_profile_target show ?thesis
    by blast
qed

text \<open>The only exception that leaves the function is \<open>ZeroDivisionError\<close>.\<close>

lemma no_attribute_error:
  "subscript d k \<noteq> Inl AttributeError"
  "py_float B v \<noteq> Inl AttributeError"
  "py_int B v \<noteq> Inl AttributeError"
  "get_activity_multiplier v \<noteq> Inl AttributeError"
  by (auto simp add: subscript_def py_float_def py_int_def get_activity_multiplier_def
        split: option.splits pyval.splits)

lemma metrics_of_profile_errors:
  "metrics_of_profile B p \<noteq> Inl AttributeError"
  by (auto simp add: metrics_of_profile_def bind_err_Inl Let_def no_attribute_error)

lemma calculate_basic_metrics_raises:
  assumes "calculate_basic_metrics B p = Inl e"
  shows "e = ZeroDivisionError"
proof (cases "metrics_of_profile B p")
  case (Inl e')
  with assms metrics_of_profile_errors [of B p] show ?thesis
    by (cases e') (auto simp add: calculate_basic_metrics_def split: if_splits)
next
  case (Inr m)
  with assms show ?thesis
    by (simp add: calculate_basic_metrics_def)
qed

lemma no_zero_division:
  "subscript d k \<noteq> Inl ZeroDivisionError"
  "py_float B v \<noteq> Inl ZeroDivisionError"
  "py_int B v \<noteq> Inl ZeroDivisionError"
  "get_activity_multiplier v \<noteq> Inl ZeroDivisionError"
  by (auto simp add: subscript_def py_float_def py_int_def get_activity_multiplier_def
        split: option.splits pyval.splits)

lemma metrics_of_profile_zero_division:
  "metrics_of_profile B p = Inl ZeroDivisionError \<longleftrightarrow>
     (\<exists>w a sx al.
        bind_err (subscript p ''weight_kg'') (py_float B) = Inr w
        \<and> bind_err (subscript p ''height_cm'') (py_float B) = Inr 0
        \<and> bind_err (subscript p ''age'') (py_int B) = Inr a
        \<and> subscript p ''sex'' = Inr sx
        \<and> subscript p ''activity_level'' = Inr al)"
  by (auto simp add: metrics_of_profile_def bind_err_Inl bind_err_Inr Let_def no_zero_division)

text \<open>
  It raises exactly when the height converts to zero while the weight and the age
  convert and the sex and the activity level are there.
\<close>

lemma calculate_basic_metrics_raises_iff:
  "calculate_basic_metrics B p = Inl ZeroDivisionError \<longleftrightarrow>
     (\<exists>w a sx al.
        bind_err (subscript p ''weight_kg'') (py_float B) = Inr w
        \<and> bind_err (subscript p ''height_cm'') (py_float B) = Inr 0
        \<and> bind_err (subscript p ''age'') (py_int B) = Inr a
        \<and> subscript p ''sex'' = Inr sx
        \<and> subscript p ''activity_level'' = Inr al)"
proof -
  have "calculate_basic_metrics B p = Inl ZeroDivisionError
          \<longleftrightarrow> metrics_of_profile B p = Inl ZeroDivisionError"
    by (cases "metrics_of_profile B p")
       (auto simp add: calculate_basic_metrics_def split: if_splits)
  then show ?thesis
    by (simp only: metrics_of_profile_zero_division)
qed

text \<open>
  When a required field is missing or does not convert to a number, the answer is the
  fallback profile, whose target is 1300.
\<close>

lemma metrics_of_profile_fields:
  assumes "metrics_of_profile B p = Inr m"
  shows "\<exists>w h a sx al.
           bind_err (subscript p ''weight_kg'') (py_float B) = Inr w
           \<and> bind_err (subscript p ''height_cm'') (py_float B) = Inr h
           \<and> bind_err (subscript p ''age'') (py_int B) = Inr a
           \<and> subscript p ''sex'' = Inr sx
           \<and> subscript p ''activity_level'' = Inr al"
  using assms
  by (auto simp add: metrics_of_profile_def bind_err_Inr Let_def split: if_splits)

lemma calculate_basic_metrics_fallback:
  assumes "\<not> (\<exists>w h a sx al.
           bind_err (subscript p ''weight_kg'') (py_float B) = Inr w
           \<and> bind_err (subscript p ''height_cm'') (py_float B) = Inr h
           \<and> bind_err (subscript p ''age'') (py_int B) = Inr a
           \<and> subscript p ''sex'' = Inr sx
           \<and> subscript p ''activity_level'' = Inr al)"
  shows "calculate_basic_metrics B p = Inr fallback_metrics"
    and "map_of fallback_metrics ''target_calories'' = Some (PyInt 1300)"
proof -
  from assms metrics_of_profile_fields obtain e where e: "metrics_of_profile B p = Inl e"
    by (cases "metrics_of_profile B p") blast+
  from assms have "metrics_of_profile B p \<noteq> Inl ZeroDivisionError"
    unfolding metrics_of_profile_zero_division by blast
  with e metrics_of_profile_errors [of B p]
  have "e = KeyError \<or> e = ValueError \<or> e = TypeError"
    by (cases e) simp_all
  with e show "calculate_basic_metrics B p = Inr fallback_metrics"
    by (auto simp add: calculate_basic_metrics_def)
  show "map_of fallback_metrics ''target_calories'' = Some (PyInt 1300)"
    by (simp add: fallback_metrics_def)
qed

text \<open>On a profile whose fields pass the validation of the trainer it does not raise.\<close>

lemma calculate_basic_metrics_valid_profile:
  assumes "all_fields_valid p"
  shows "\<exists>m. calculate_basic_metrics B p = Inr m"
proof (rule ccontr)
  assume "\<not> (\<exists>m. calculate_basic_metrics B p = Inr m)"
  then obtain e where "calculate_basic_metrics B p = Inl e"
    by (cases "calculate_basic_metrics B p") auto
  with calculate_basic_metrics_raises [OF this]
  have "calculate_basic_metrics B p = Inl ZeroDivisionError"
    by simp
  then have h: "bind_err (subscript p ''height_cm'') (py_float B) = Inr 0"
    by (auto simp add: calculate_basic_metrics_raises_iff)
  from assms obtain v where v: "map_of p ''height_cm'' = Some v" "field_valid ''height_cm'' v"
    by (auto simp add: all_fields_valid_def required_fields_def split: option.splits)
  from v(2) have "\<exists>x. py_float B v = Inr x \<and> 80 \<le> x"
    by (auto simp add: field_valid_def py_float_def split: pyval.splits)
  with h v(1) show False
    by (auto simp add: bind_err_def subscript_def)
qed

text \<open>
  C10. Every nutrition profile that \<open>_calculate_basic_metrics\<close> returns has a target
  of at least 1200 calories, the fallback profile of a missing or non-numeric field has
  1300, and the stage should never raise. The first two hold (the lemmas above); the
  third does not: with a height of zero the division that computes the BMI raises
  \<open>ZeroDivisionError\<close>, which the handler does not catch, and the nutritionist node
  raises with it.
\<close>

theorem calculate_basic_metrics_zero_height:
  "calculate_basic_metrics B zero_height_profile = Inl ZeroDivisionError
   \<and> nutritionist_node B (s \<lparr> user_profile := zero_height_profile \<rparr>) llm now
       = Inl ZeroDivisionError"
proof -
  have "calculate_basic_metrics B zero_height_profile = Inl ZeroDivisionError"
    by (simp add: calculate_basic_metrics_def metrics_of_profile_def zero_height_profile_def
          bind_err_def subscript_def py_float_def py_int_def)
  then show ?thesis
    by (simp add: nutritionist_node_def nutritionist_def bind_err_def)
qed

section \<open>The profile and its completeness\<close>

lemma only_valid_update:
  "only_valid d \<Longrightarrow> field_valid k v \<Longrightarrow> only_valid (AList.update k v d)"
  by (simp add: only_valid_def update_conv')

lemma field_valid_simps:
  "field_valid ''age'' (PyInt a) = (1 \<le> a \<and> a \<le> 120)"
  "field_valid ''sex'' (PyStr x) = (x \<in> set [''male'', ''female''])"
  "field_valid ''height_cm'' (PyFloat h) = (80 \<le> h \<and> h \<le> 250)"
  "field_valid ''weight_kg'' (PyFloat w) = (20 \<le> w \<and> w \<le> 400)"
  "field_valid ''activity_level'' (PyStr x)
     = (x \<in> set [''sedentary'', ''light'', ''moderate'', ''active'', ''very_active''])"
  "field_valid ''first_meal'' (PyBool b) = True"
  by (simp_all add: field_valid_def)

lemma only_valid_clean_age: "only_valid d \<Longrightarrow> only_valid (clean_age B pd d)"
  by (simp add: clean_age_def only_valid_update field_valid_simps split: option.split sum.split)

lemma only_valid_clean_sex: "only_valid d \<Longrightarrow> only_valid (clean_sex B pd d)"
  by (simp add: clean_sex_def Let_def only_valid_update field_valid_simps split: option.split)

lemma only_valid_clean_height_cm: "only_valid d \<Longrightarrow> only_valid (clean_height_cm B pd d)"
  by (simp add: clean_height_cm_def only_valid_update field_valid_simps
        split: option.split sum.split)

lemma only_valid_clean_weight_kg: "only_valid d \<Longrightarrow> only_valid (clean_weight_kg B pd d)"
  by (simp add: clean_weight_kg_def only_valid_update field_valid_simps
        split: option.split sum.split)

lemma only_valid_clean_activity_level:
  "only_valid d \<Longrightarrow> only_valid (clean_activity_level B pd d)"
  by (simp add: clean_activity_level_def Let_def only_valid_update field_valid_simps
        split: option.split)

lemma only_valid_clean_first_meal: "only_valid d \<Longrightarrow> only_valid (clean_first_meal B pd d)"
  by (simp add: clean_first_meal_def Let_def only_valid_update field_valid_simps
        split: option.split pyval.split)

text \<open>Every field that the validation lets through passes the rules.\<close>

lemma validate_profile_data_valid:
  "map_of (validate_profile_data B pd) k = Some v \<Longrightarrow> field_valid k v"
proof -
  have "only_valid []" by (simp add: only_valid_def)
  then have "only_valid (validate_profile_data B pd)"
    unfolding validate_profile_data_def
    by (intro only_valid_clean_age only_valid_clean_sex only_valid_clean_height_cm
          only_valid_clean_weight_kg only_valid_clean_activity_level
          only_valid_clean_first_meal)
  then show "map_of (validate_profile_data B pd) k = Some v \<Longrightarrow> field_valid k v"
    by (simp add: only_valid_def)
qed

text \<open>
  Without a reply of the language model, the fallback derives the flag from the stored
  profile: it is true iff all six fields are there.
\<close>

lemma fallback_profile_complete:
  "r_profile_complete (handle_profile_collection B s ui p None)
     = Some (p \<noteq> [] \<and> list_all (\<lambda>k. map_of p k \<noteq> None) required_fields)"
  by (simp add: handle_profile_collection_def Let_def no_result_def truthy_dict_def
        filter_empty_conv list_all_iff)

lemma validate_overclaimed:
  "validate_profile_data B
     [(''age'', PyInt 200), (''sex'', PyStr ''male''), (''height_cm'', PyInt 175),
      (''weight_kg'', PyInt 70), (''activity_level'', PyStr ''moderate''),
      (''first_meal'', PyBool True)]
   = [(''sex'', PyStr ''male''), (''height_cm'', PyFloat 175), (''weight_kg'', PyFloat 70),
      (''activity_level'', PyStr ''moderate''), (''first_meal'', PyBool True)]"
  by (simp add: validate_profile_data_def clean_age_def clean_sex_def clean_height_cm_def
        clean_weight_kg_def clean_activity_level_def clean_first_meal_def py_int_def
        py_float_def py_str_def py_lower_def lower_char_def Let_def)

text \<open>
  C7. \<open>profile_complete\<close> should be true iff all six required fields are present and
  each passes its validation. The validation is as stated and the fallback derives the
  flag from the stored profile (the lemmas above), but with a reply of the language
  model the flag is the one the reply carries, whatever the validation has dropped.
  From the initial state, a reply that gives an age of 200 and says that the profile is
  complete leaves a state whose flag is true and whose profile has no age.
\<close>

theorem profile_complete_overclaimed:
  "(case trainer_node B initial_state (Some overclaiming_reply) now of
      Inl e \<Rightarrow> False
    | Inr u \<Rightarrow> profile_complete (merge initial_state u)
               \<and> map_of (user_profile (merge initial_state u)) ''age'' = None
               \<and> \<not> all_fields_valid (user_profile (merge initial_state u)))"
proof -
  have t: "trainer B initial_state (Some overclaiming_reply)
           = Inr (overclaiming_reply
                   \<lparr> r_user_profile :=
                       Some [(''sex'', PyStr ''male''), (''height_cm'', PyFloat 175),
                             (''weight_kg'', PyFloat 70),
                             (''activity_level'', PyStr ''moderate''),
                             (''first_meal'', PyBool True)] \<rparr>)"
    by (simp add: trainer_def initial_state_def truthy_dict_def truthy_opt_def Let_def
          handle_profile_collection_def overclaiming_reply_def no_result_def
          validate_overclaimed dict_merge_def)
  show ?thesis
    unfolding trainer_node_def t bind_err_def
    by (simp add: Let_def overclaiming_reply_def no_result_def append_message_def
          get_or_def truthy_dict_def truthy_opt_def truthy_str_def empty_update_def
          merge_def overwrite_def all_fields_valid_def required_fields_def)
qed


section \<open>The lookup in the food catalogue\<close>













end
